theory Spec2Isabelle
  imports Complex_Main "HOL-Library.Word"
begin

section \<open>The MHD flux sweep: \<^verbatim>\<open>src/mhd/mhd_calc_fluxes.cpp\<close>\<close>

text \<open>
  \<^verbatim>\<open>MHD::MHDCalcFlux\<close> sweeps the three directions in turn. In each direction it
  launches one Kokkos team per line of cells; a team reconstructs interface states into
  team scratch buffers and hands them to a Riemann solver, which writes the flux and EMF
  arrays of that direction.

  The reconstruction kernels (\<^verbatim>\<open>reconstruct/dc.cpp\<close>, \<^verbatim>\<open>plm.cpp\<close>,
  \<^verbatim>\<open>ppm.cpp\<close>), the solvers (\<^verbatim>\<open>mhd/rsolvers/advect_mhd.cpp\<close>,
  \<^verbatim>\<open>llf_mhd.cpp\<close>) and Kokkos' \<^verbatim>\<open>shmem_size\<close> are not among the sources, and
  neither are the array types of \<^verbatim>\<open>mhd.hpp\<close>. They are parameters of the model: the
  array types are type variables (\<open>'q\<close> cell-centred arrays, \<open>'b\<close> one face-centred field
  component, \<open>'f\<close> a flux array, \<open>'e\<close> an EMF array, \<open>'eos\<close> the EOS data, \<open>'s\<close> the
  contents of one scratch buffer) and the kernels are the fields of the record
  \<open>kernels\<close>. Every theorem below holds for all kernels.

  C++ \<^verbatim>\<open>int\<close> is modelled by \<open>int\<close>: the values are cell indices and cell counts of
  one mesh block, and signed overflow has no defined behaviour to model. \<^verbatim>\<open>size_t\<close>
  is a 64-bit word, so the scratch sizes wrap as the unsigned arithmetic does.
\<close>

subsection \<open>Selectors, status, indices\<close>

text \<open>
  Modelled from the spec: the enumerations \<^verbatim>\<open>ReconstructionMethod\<close>,
  \<^verbatim>\<open>MHD_RSolver\<close> and \<^verbatim>\<open>TaskStatus\<close> are declared in \<^verbatim>\<open>athena.hpp\<close>, which is
  not among the sources. The switch statements name \<^verbatim>\<open>dc\<close>, \<^verbatim>\<open>plm\<close>, \<^verbatim>\<open>ppm\<close> and
  \<^verbatim>\<open>advect\<close>, \<^verbatim>\<open>llf\<close>; \<open>recon_unrecognized\<close> and \<open>rsolver_unrecognized\<close> stand for any
  other value of the selector, which the switch sends to \<^verbatim>\<open>default\<close>. The status is
  "a status signal indicating whether the computation ran to completion".
\<close>

datatype ReconstructionMethod = dc | plm | ppm | recon_unrecognized

datatype MHD_RSolver = advect | llf | rsolver_unrecognized

datatype TaskStatus = complete | incomplete | failed

text \<open>
  Modelled from the spec: the velocity indices \<^verbatim>\<open>IVX\<close>, \<^verbatim>\<open>IVY\<close>, \<^verbatim>\<open>IVZ\<close> of
  \<^verbatim>\<open>athena.hpp\<close>, in the fixed ordering "density, three momentum/velocity
  components, energy/pressure".
\<close>

definition IVX :: int where "IVX = 1"
definition IVY :: int where "IVY = 2"
definition IVZ :: int where "IVZ = 3"

text \<open>
  The pack of mesh blocks: \<^verbatim>\<open>mb_cells\<close> with the fields the modelled functions read
  (\<open>is\<close> is a keyword of Isabelle, hence \<open>is'\<close>), the number of blocks, and of the
  mesh \<^verbatim>\<open>pmesh\<close> the two flags \<^verbatim>\<open>MHDCalcFlux\<close> reads. The physics modules and the
  block sizes, which only the problem generators read, extend this record below.
\<close>

record mb_cells_t =
  is' :: int
  ie :: int
  js :: int
  je :: int
  ks :: int
  ke :: int
  nx1 :: int
  nx2 :: int
  ng :: int

record Mesh =
  nx2gt1 :: bool
  nx3gt1 :: bool

record MeshBlockPack =
  pmesh :: Mesh
  mb_cells :: mb_cells_t
  nmb_thispack :: int

text \<open>The face-centred field \<^verbatim>\<open>b0\<close> with its three components.\<close>

record 'b FaceFld =
  x1f :: 'b
  x2f :: 'b
  x3f :: 'b

text \<open>
  The \<^verbatim>\<open>MHD\<close> object: the members that \<^verbatim>\<open>MHDCalcFlux\<close> and the problem generators
  read or write, with \<^verbatim>\<open>peos->eos_data\<close> flattened into it. (An Isabelle name cannot
  end in an underscore: \<^verbatim>\<open>recon_method_\<close> and \<^verbatim>\<open>rsolver_method_\<close> lose theirs.)
\<close>

record ('q, 'b, 'f, 'e, 'eos) MHD =
  pmy_pack :: MeshBlockPack
  nmhd :: int
  nscalars :: int
  recon_method :: ReconstructionMethod
  rsolver_method :: MHD_RSolver
  u0 :: 'q
  w0 :: 'q
  bcc0 :: 'q
  b0 :: "'b FaceFld"
  eos_data :: 'eos
  flux1 :: 'f
  flux2 :: 'f
  flux3 :: 'f
  emf_x1 :: 'e
  emf_x2 :: 'e
  emf_x3 :: 'e

subsection \<open>Kernels and the call trace\<close>

text \<open>
  A reconstruction kernel \<^verbatim>\<open>R(member, m, k, j, il, iu, q, ql, qr)\<close> reads the cell array
  \<open>q\<close> and writes the two scratch buffers it is given: here it maps the old contents of
  the two buffers to their new contents. A solver
  \<^verbatim>\<open>S(member, eos, m, k, j, il, iu, ivx, wl, wr, bl, br, bx, flx, emf)\<close> reads the four
  buffers and the longitudinal field and writes the flux and the EMF array (spec 4.2:
  the solvers "read only the interface-state buffers and the face-centered longitudinal
  field" and "write flux and EMF outputs"): here it maps the old flux and EMF arrays
  to the new ones. (The comment of line 243, "RS returns flux in input wr array", is
  about an older interface: the solvers called here are given the arrays \<^verbatim>\<open>flx\<close> and
  \<^verbatim>\<open>emf\<close> to write.) The team member is left out: a team is run as one thread, so
  \<^verbatim>\<open>member.team_barrier()\<close> does nothing.
\<close>

type_synonym ('q, 's) recon_kernel =
  "int \<Rightarrow> int \<Rightarrow> int \<Rightarrow> int \<Rightarrow> int \<Rightarrow> 'q \<Rightarrow> 's \<Rightarrow> 's \<Rightarrow> 's \<times> 's"

type_synonym ('b, 'f, 'e, 'eos, 's) rsolver_kernel =
  "'eos \<Rightarrow> int \<Rightarrow> int \<Rightarrow> int \<Rightarrow> int \<Rightarrow> int \<Rightarrow> int \<Rightarrow> 's \<Rightarrow> 's \<Rightarrow> 's \<Rightarrow> 's \<Rightarrow> 'b
     \<Rightarrow> 'f \<Rightarrow> 'e \<Rightarrow> 'f \<times> 'e"

text \<open>
  \<open>uninit\<close> is what a scratch buffer holds when it is allocated: team scratch memory is
  not initialised.
\<close>

record ('q, 'b, 'f, 'e, 'eos, 's) kernels =
  shmem_size :: "int \<Rightarrow> int \<Rightarrow> 64 word"
  uninit :: 's
  DonorCellX1 :: "('q, 's) recon_kernel"
  DonorCellX2 :: "('q, 's) recon_kernel"
  DonorCellX3 :: "('q, 's) recon_kernel"
  PiecewiseLinearX1 :: "('q, 's) recon_kernel"
  PiecewiseLinearX2 :: "('q, 's) recon_kernel"
  PiecewiseLinearX3 :: "('q, 's) recon_kernel"
  PiecewiseParabolicX1 :: "('q, 's) recon_kernel"
  PiecewiseParabolicX2 :: "('q, 's) recon_kernel"
  PiecewiseParabolicX3 :: "('q, 's) recon_kernel"
  Advect :: "('b, 'f, 'e, 'eos, 's) rsolver_kernel"
  LLF :: "('b, 'f, 'e, 'eos, 's) rsolver_kernel"

text \<open>
  The trace records what \<^verbatim>\<open>MHDCalcFlux\<close> executes, in the order of a serial run:
  \<open>Launch name scr_size\<close> for a \<^verbatim>\<open>par_for_outer\<close> with its scratch request,
  \<open>Recon method dir q m k j il iu\<close> for a reconstruction kernel of direction \<open>dir\<close> on the
  cell array \<open>q\<close>, and \<open>Solve solver m k j il iu ivx\<close> for a solver call.
\<close>

datatype cell_array = W0 | BCC0

datatype event =
  Launch string "64 word"
| Recon ReconstructionMethod nat cell_array int int int int int
| Solve MHD_RSolver int int int int int int

fun is_Launch :: "event \<Rightarrow> bool" where
  "is_Launch (Launch name sz) = True"
| "is_Launch e = False"


subsection \<open>The parallel dispatch\<close>

text \<open>
  \<open>flx\<close> and \<open>emf\<close> are the two arrays the lambda of one direction captures
  (\<^verbatim>\<open>flx1\<close> and \<^verbatim>\<open>emf1\<close> in direction 1, and so on); they are Kokkos views, so what a
  solver writes through them is written to \<^verbatim>\<open>flux1\<close> and \<^verbatim>\<open>emf_x1\<close> themselves.
\<close>

record ('f, 'e) sweep =
  flx :: 'f
  emf :: 'e
  trace :: "event list"

text \<open>
  Modelled from the spec: \<^verbatim>\<open>par_for_outer\<close> of \<^verbatim>\<open>athena.hpp\<close>, which is not among
  the sources. It launches "an outer layer of independent units", one per index tuple
  of the inclusive ranges it is given, each with \<open>scr_size\<close> bytes of team scratch. The
  units are run in the order of the serial loop nest, the first index outermost.
\<close>

definition par_for_outer3 ::
  "string \<Rightarrow> 64 word \<Rightarrow> int \<Rightarrow> int \<Rightarrow> int \<Rightarrow> int \<Rightarrow> int \<Rightarrow> int
     \<Rightarrow> (int \<Rightarrow> int \<Rightarrow> int \<Rightarrow> ('f, 'e) sweep \<Rightarrow> ('f, 'e) sweep)
     \<Rightarrow> ('f, 'e) sweep \<Rightarrow> ('f, 'e) sweep" where
  "par_for_outer3 name scr_size ml mu kl ku jl ju body st =
     fold (\<lambda>m. fold (\<lambda>k. fold (\<lambda>j. body m k j) [jl..ju]) [kl..ku]) [ml..mu]
       (st\<lparr>trace := trace st @ [Launch name scr_size]\<rparr>)"

definition par_for_outer2 ::
  "string \<Rightarrow> 64 word \<Rightarrow> int \<Rightarrow> int \<Rightarrow> int \<Rightarrow> int
     \<Rightarrow> (int \<Rightarrow> int \<Rightarrow> ('f, 'e) sweep \<Rightarrow> ('f, 'e) sweep)
     \<Rightarrow> ('f, 'e) sweep \<Rightarrow> ('f, 'e) sweep" where
  "par_for_outer2 name scr_size ml mu kl ku body st =
     fold (\<lambda>m. fold (\<lambda>k. body m k) [kl..ku]) [ml..mu]
       (st\<lparr>trace := trace st @ [Launch name scr_size]\<rparr>)"

subsection \<open>The solver switch\<close>

text \<open>
  The \<^verbatim>\<open>switch (rsolver_method)\<close> of lines 87-103, 165-181 and 245-261: the same
  statement three times, with the range, the velocity index, the longitudinal field and
  the output arrays of its direction. The \<^verbatim>\<open>default\<close> case calls nothing.
\<close>

definition rsolver_switch ::
  "('q, 'b, 'f, 'e, 'eos, 's) kernels \<Rightarrow> MHD_RSolver \<Rightarrow> 'eos
     \<Rightarrow> int \<Rightarrow> int \<Rightarrow> int \<Rightarrow> int \<Rightarrow> int \<Rightarrow> int
     \<Rightarrow> 's \<Rightarrow> 's \<Rightarrow> 's \<Rightarrow> 's \<Rightarrow> 'b \<Rightarrow> ('f, 'e) sweep \<Rightarrow> ('f, 'e) sweep" where
  "rsolver_switch K rs eos m k j il iu ivx wl' wr' bl' br' bx st =
     (case rs of
        advect \<Rightarrow>
          (case Advect K eos m k j il iu ivx wl' wr' bl' br' bx (flx st) (emf st) of
             (f, e) \<Rightarrow> st\<lparr>flx := f, emf := e,
                           trace := trace st @ [Solve advect m k j il iu ivx]\<rparr>)
      | llf \<Rightarrow>
          (case LLF K eos m k j il iu ivx wl' wr' bl' br' bx (flx st) (emf st) of
             (f, e) \<Rightarrow> st\<lparr>flx := f, emf := e,
                           trace := trace st @ [Solve llf m k j il iu ivx]\<rparr>)
      | _ \<Rightarrow> st)"

subsection \<open>Direction 1\<close>

text \<open>
  Lines 60-82. The four buffers \<^verbatim>\<open>wl\<close>, \<^verbatim>\<open>wr\<close>, \<^verbatim>\<open>bl\<close>, \<^verbatim>\<open>br\<close> are four
  allocations of the team's scratch; the switch returns their contents as
  \<open>((wl, wr), (bl, br))\<close>, with the kernel calls it made.
\<close>

definition reconstruct_x1 ::
  "('q, 'b, 'f, 'e, 'eos, 's) kernels \<Rightarrow> ReconstructionMethod
     \<Rightarrow> int \<Rightarrow> int \<Rightarrow> int \<Rightarrow> int \<Rightarrow> int \<Rightarrow> 'q \<Rightarrow> 'q
     \<Rightarrow> (('s \<times> 's) \<times> ('s \<times> 's)) \<times> event list" where
  "reconstruct_x1 K rm m k j il iu w b =
     (let wl' = uninit K; wr' = uninit K; bl' = uninit K; br' = uninit K in
      case rm of
        dc \<Rightarrow>
          ((DonorCellX1 K m k j il iu w wl' wr', DonorCellX1 K m k j il iu b bl' br'),
           [Recon dc 1 W0 m k j il iu, Recon dc 1 BCC0 m k j il iu])
      | plm \<Rightarrow>
          ((PiecewiseLinearX1 K m k j il iu w wl' wr',
            PiecewiseLinearX1 K m k j il iu b bl' br'),
           [Recon plm 1 W0 m k j il iu, Recon plm 1 BCC0 m k j il iu])
      | ppm \<Rightarrow>
          ((PiecewiseParabolicX1 K m k j il iu w wl' wr',
            PiecewiseParabolicX1 K m k j il iu b bl' br'),
           [Recon ppm 1 W0 m k j il iu, Recon ppm 1 BCC0 m k j il iu])
      | _ \<Rightarrow> (((wl', wr'), (bl', br')), []))"

text \<open>
  The body of the lambda of lines 58-105, for the team of \<open>(m, k, j)\<close>: reconstruct over
  \<open>[is-1, ie+1]\<close>, then "compute fluxes over [is,ie+1]".
\<close>

definition x1_unit ::
  "('q, 'b, 'f, 'e, 'eos, 's) kernels \<Rightarrow> ('q, 'b, 'f, 'e, 'eos) MHD
     \<Rightarrow> int \<Rightarrow> int \<Rightarrow> int \<Rightarrow> ('f, 'e) sweep \<Rightarrow> ('f, 'e) sweep" where
  "x1_unit K this m k j st =
     (let c = mb_cells (pmy_pack this) in
      case reconstruct_x1 K (recon_method this) m k j (is' c - 1) (ie c + 1)
             (w0 this) (bcc0 this) of
        (((wl', wr'), (bl', br')), ev) \<Rightarrow>
          rsolver_switch K (rsolver_method this) (eos_data this) m k j (is' c) (ie c + 1)
            IVX wl' wr' bl' br' (x1f (b0 this)) (st\<lparr>trace := trace st @ ev\<rparr>))"

subsection \<open>Directions 2 and 3: the permuted scratch buffers\<close>

text \<open>
  The six scratch buffers of a team. A \<^verbatim>\<open>ScrArray2D\<close> is a view: \<^verbatim>\<open>auto wl = scr1\<close>
  copies the handle, not the data, so \<^verbatim>\<open>wl\<close> and \<^verbatim>\<open>scr1\<close> are the same memory. The
  scratch memory of a team is therefore a store from the six buffers to their contents,
  and the local views \<^verbatim>\<open>wl\<close>, \<^verbatim>\<open>wl_jp1\<close>, \<^verbatim>\<open>wr\<close>, \<^verbatim>\<open>bl\<close>, \<^verbatim>\<open>bl_jp1\<close>, \<^verbatim>\<open>br\<close>
  are names of buffers. (Direction 3 calls them \<^verbatim>\<open>wl_kp1\<close> and \<^verbatim>\<open>bl_kp1\<close>.)
\<close>

datatype scr = scr1 | scr2 | scr3 | scr4 | scr5 | scr6

record roles =
  wl :: scr
  wl_jp1 :: scr
  wr :: scr
  bl :: scr
  bl_jp1 :: scr
  br :: scr

text \<open>The remainder of C++: the quotient is truncated towards zero.\<close>

definition cpp_rem :: "int \<Rightarrow> int \<Rightarrow> int" where
  "cpp_rem a b = a - b * (sgn a * sgn b * (\<bar>a\<bar> div \<bar>b\<bar>))"

text \<open>Lines 129-141 and 209-221, "Permute scratch arrays", for the loop counter \<open>j\<close>.\<close>

definition permute :: "int \<Rightarrow> roles" where
  "permute j =
     (let r = \<lparr>wl = scr1, wl_jp1 = scr2, wr = scr3, bl = scr4, bl_jp1 = scr5, br = scr6\<rparr>
      in if cpp_rem j 2 = 0
         then r\<lparr>wl := scr2, wl_jp1 := scr1, bl := scr5, bl_jp1 := scr4\<rparr>
         else r)"

text \<open>
  One kernel call on the store: the kernel is given the views \<open>ql\<close> and \<open>qr\<close> and writes
  both. (The two are never the same buffer: \<open>ql\<close> is one of the two left buffers and
  \<open>qr\<close> is \<^verbatim>\<open>scr3\<close> or \<^verbatim>\<open>scr6\<close>.)
\<close>

definition recon_call ::
  "('q, 's) recon_kernel \<Rightarrow> int \<Rightarrow> int \<Rightarrow> int \<Rightarrow> int \<Rightarrow> int \<Rightarrow> 'q \<Rightarrow> scr \<Rightarrow> scr
     \<Rightarrow> (scr \<Rightarrow> 's) \<Rightarrow> (scr \<Rightarrow> 's)" where
  "recon_call R m k j il iu q ql qr mem =
     (case R m k j il iu q (mem ql) (mem qr) of (a, b) \<Rightarrow> mem(ql := a, qr := b))"

text \<open>Lines 144-160: the reconstruction switch of direction 2.\<close>

definition reconstruct_x2 ::
  "('q, 'b, 'f, 'e, 'eos, 's) kernels \<Rightarrow> ReconstructionMethod
     \<Rightarrow> int \<Rightarrow> int \<Rightarrow> int \<Rightarrow> int \<Rightarrow> int \<Rightarrow> 'q \<Rightarrow> 'q \<Rightarrow> roles
     \<Rightarrow> (scr \<Rightarrow> 's) \<Rightarrow> (scr \<Rightarrow> 's) \<times> event list" where
  "reconstruct_x2 K rm m k j il iu w b r mem =
     (case rm of
        dc \<Rightarrow>
          (recon_call (DonorCellX2 K) m k j il iu b (bl_jp1 r) (br r)
             (recon_call (DonorCellX2 K) m k j il iu w (wl_jp1 r) (wr r) mem),
           [Recon dc 2 W0 m k j il iu, Recon dc 2 BCC0 m k j il iu])
      | plm \<Rightarrow>
          (recon_call (PiecewiseLinearX2 K) m k j il iu b (bl_jp1 r) (br r)
             (recon_call (PiecewiseLinearX2 K) m k j il iu w (wl_jp1 r) (wr r) mem),
           [Recon plm 2 W0 m k j il iu, Recon plm 2 BCC0 m k j il iu])
      | ppm \<Rightarrow>
          (recon_call (PiecewiseParabolicX2 K) m k j il iu b (bl_jp1 r) (br r)
             (recon_call (PiecewiseParabolicX2 K) m k j il iu w (wl_jp1 r) (wr r) mem),
           [Recon ppm 2 W0 m k j il iu, Recon ppm 2 BCC0 m k j il iu])
      | _ \<Rightarrow> (mem, []))"

text \<open>Lines 224-240: the reconstruction switch of direction 3.\<close>

definition reconstruct_x3 ::
  "('q, 'b, 'f, 'e, 'eos, 's) kernels \<Rightarrow> ReconstructionMethod
     \<Rightarrow> int \<Rightarrow> int \<Rightarrow> int \<Rightarrow> int \<Rightarrow> int \<Rightarrow> 'q \<Rightarrow> 'q \<Rightarrow> roles
     \<Rightarrow> (scr \<Rightarrow> 's) \<Rightarrow> (scr \<Rightarrow> 's) \<times> event list" where
  "reconstruct_x3 K rm m k j il iu w b r mem =
     (case rm of
        dc \<Rightarrow>
          (recon_call (DonorCellX3 K) m k j il iu b (bl_jp1 r) (br r)
             (recon_call (DonorCellX3 K) m k j il iu w (wl_jp1 r) (wr r) mem),
           [Recon dc 3 W0 m k j il iu, Recon dc 3 BCC0 m k j il iu])
      | plm \<Rightarrow>
          (recon_call (PiecewiseLinearX3 K) m k j il iu b (bl_jp1 r) (br r)
             (recon_call (PiecewiseLinearX3 K) m k j il iu w (wl_jp1 r) (wr r) mem),
           [Recon plm 3 W0 m k j il iu, Recon plm 3 BCC0 m k j il iu])
      | ppm \<Rightarrow>
          (recon_call (PiecewiseParabolicX3 K) m k j il iu b (bl_jp1 r) (br r)
             (recon_call (PiecewiseParabolicX3 K) m k j il iu w (wl_jp1 r) (wr r) mem),
           [Recon ppm 3 W0 m k j il iu, Recon ppm 3 BCC0 m k j il iu])
      | _ \<Rightarrow> (mem, []))"

text \<open>
  The kernel that the reconstruction switch of direction 2 (lines 146-157) resp. of
  direction 3 (lines 226-237) calls for a method, on \<^verbatim>\<open>w0\<close> and then on \<^verbatim>\<open>bcc0\<close>; the
  \<^verbatim>\<open>default\<close> case calls none.
\<close>

definition kernel_x2 ::
  "('q, 'b, 'f, 'e, 'eos, 's) kernels \<Rightarrow> ReconstructionMethod \<Rightarrow> ('q, 's) recon_kernel option"
  where
  "kernel_x2 K rm =
     (case rm of
        dc \<Rightarrow> Some (DonorCellX2 K)
      | plm \<Rightarrow> Some (PiecewiseLinearX2 K)
      | ppm \<Rightarrow> Some (PiecewiseParabolicX2 K)
      | _ \<Rightarrow> None)"

definition kernel_x3 ::
  "('q, 'b, 'f, 'e, 'eos, 's) kernels \<Rightarrow> ReconstructionMethod \<Rightarrow> ('q, 's) recon_kernel option"
  where
  "kernel_x3 K rm =
     (case rm of
        dc \<Rightarrow> Some (DonorCellX3 K)
      | plm \<Rightarrow> Some (PiecewiseLinearX3 K)
      | ppm \<Rightarrow> Some (PiecewiseParabolicX3 K)
      | _ \<Rightarrow> None)"

text \<open>
  One iteration of the loop over \<open>j\<close> of lines 128-184, for the team of \<open>(m, k)\<close>: the
  state is the team's scratch memory and the arrays of the direction. The solver is
  given the contents of \<^verbatim>\<open>wl\<close>, \<^verbatim>\<open>wr\<close>, \<^verbatim>\<open>bl\<close>, \<^verbatim>\<open>br\<close> after the reconstruction.
\<close>

definition x2_body ::
  "('q, 'b, 'f, 'e, 'eos, 's) kernels \<Rightarrow> ('q, 'b, 'f, 'e, 'eos) MHD \<Rightarrow> int \<Rightarrow> int \<Rightarrow> int
     \<Rightarrow> (scr \<Rightarrow> 's) \<times> ('f, 'e) sweep \<Rightarrow> (scr \<Rightarrow> 's) \<times> ('f, 'e) sweep" where
  "x2_body K this m k j s =
     (let c = mb_cells (pmy_pack this); r = permute j in
      case reconstruct_x2 K (recon_method this) m k j (is' c - 1) (ie c + 1)
             (w0 this) (bcc0 this) r (fst s) of
        (mem, ev) \<Rightarrow>
          (let st = (snd s)\<lparr>trace := trace (snd s) @ ev\<rparr> in
           if j > js c - 1
           then (mem, rsolver_switch K (rsolver_method this) (eos_data this) m k j
                        (is' c - 1) (ie c + 1) IVY
                        (mem (wl r)) (mem (wr r)) (mem (bl r)) (mem (br r))
                        (x2f (b0 this)) st)
           else (mem, st)))"

function x2_loop ::
  "('q, 'b, 'f, 'e, 'eos, 's) kernels \<Rightarrow> ('q, 'b, 'f, 'e, 'eos) MHD \<Rightarrow> int \<Rightarrow> int \<Rightarrow> int
     \<Rightarrow> (scr \<Rightarrow> 's) \<times> ('f, 'e) sweep \<Rightarrow> (scr \<Rightarrow> 's) \<times> ('f, 'e) sweep" where
  "x2_loop K this m k j s =
     (if j \<le> je (mb_cells (pmy_pack this)) + 1
      then x2_loop K this m k (j + 1) (x2_body K this m k j s)
      else s)"
  by pat_completeness auto
termination
  by (relation "measure (\<lambda>(K, this, m, k, j, s). nat (je (mb_cells (pmy_pack this)) + 2 - j))") auto

text \<open>The body of the lambda of lines 119-185: six fresh buffers, then the loop.\<close>

definition x2_unit ::
  "('q, 'b, 'f, 'e, 'eos, 's) kernels \<Rightarrow> ('q, 'b, 'f, 'e, 'eos) MHD
     \<Rightarrow> int \<Rightarrow> int \<Rightarrow> ('f, 'e) sweep \<Rightarrow> ('f, 'e) sweep" where
  "x2_unit K this m k st =
     snd (x2_loop K this m k (js (mb_cells (pmy_pack this)) - 1) (\<lambda>b. uninit K, st))"

text \<open>
  One iteration of the loop over \<open>k\<close> of lines 208-264, for the team of \<open>(m, j)\<close>. The
  kernels take \<open>m, k, j\<close> in this order in every direction.
\<close>

definition x3_body ::
  "('q, 'b, 'f, 'e, 'eos, 's) kernels \<Rightarrow> ('q, 'b, 'f, 'e, 'eos) MHD \<Rightarrow> int \<Rightarrow> int \<Rightarrow> int
     \<Rightarrow> (scr \<Rightarrow> 's) \<times> ('f, 'e) sweep \<Rightarrow> (scr \<Rightarrow> 's) \<times> ('f, 'e) sweep" where
  "x3_body K this m j k s =
     (let c = mb_cells (pmy_pack this); r = permute k in
      case reconstruct_x3 K (recon_method this) m k j (is' c - 1) (ie c + 1)
             (w0 this) (bcc0 this) r (fst s) of
        (mem, ev) \<Rightarrow>
          (let st = (snd s)\<lparr>trace := trace (snd s) @ ev\<rparr> in
           if k > ks c - 1
           then (mem, rsolver_switch K (rsolver_method this) (eos_data this) m k j
                        (is' c - 1) (ie c + 1) IVZ
                        (mem (wl r)) (mem (wr r)) (mem (bl r)) (mem (br r))
                        (x3f (b0 this)) st)
           else (mem, st)))"

function x3_loop ::
  "('q, 'b, 'f, 'e, 'eos, 's) kernels \<Rightarrow> ('q, 'b, 'f, 'e, 'eos) MHD \<Rightarrow> int \<Rightarrow> int \<Rightarrow> int
     \<Rightarrow> (scr \<Rightarrow> 's) \<times> ('f, 'e) sweep \<Rightarrow> (scr \<Rightarrow> 's) \<times> ('f, 'e) sweep" where
  "x3_loop K this m j k s =
     (if k \<le> ke (mb_cells (pmy_pack this)) + 1
      then x3_loop K this m j (k + 1) (x3_body K this m j k s)
      else s)"
  by pat_completeness auto
termination
  by (relation "measure (\<lambda>(K, this, m, j, k, s). nat (ke (mb_cells (pmy_pack this)) + 2 - k))") auto

definition x3_unit ::
  "('q, 'b, 'f, 'e, 'eos, 's) kernels \<Rightarrow> ('q, 'b, 'f, 'e, 'eos) MHD
     \<Rightarrow> int \<Rightarrow> int \<Rightarrow> ('f, 'e) sweep \<Rightarrow> ('f, 'e) sweep" where
  "x3_unit K this m j st =
     snd (x3_loop K this m j (ks (mb_cells (pmy_pack this)) - 1) (\<lambda>b. uninit K, st))"

subsection \<open>\<^verbatim>\<open>MHD::MHDCalcFlux\<close>\<close>

text \<open>
  Lines 38-39 read \<^verbatim>\<open>int nmhd = nmhd; int nvars = nmhd + nscalars;\<close>. In C++ a local
  variable is in scope in its own initialiser, so the \<^verbatim>\<open>nmhd\<close> on the right of line 38
  is the new local and not the member: the local is initialised from itself and holds
  an indeterminate value. That value is the argument \<open>nmhd_local\<close>; line 39 then adds
  the member \<^verbatim>\<open>nscalars\<close> to it.
\<close>

definition calc_nvars :: "('q, 'b, 'f, 'e, 'eos) MHD \<Rightarrow> int \<Rightarrow> int" where
  "calc_nvars this nmhd_local = nmhd_local + nscalars this"

text \<open>Lines 50-51, 112-113 and 192-193, with the number of buffer sets as \<open>n\<close>.\<close>

definition scr_size ::
  "('q, 'b, 'f, 'e, 'eos, 's) kernels \<Rightarrow> int \<Rightarrow> int \<Rightarrow> 64 word \<Rightarrow> 64 word" where
  "scr_size K nvars ncells1 n = (shmem_size K nvars ncells1 + shmem_size K 3 ncells1) * n"

text \<open>
  The three dispatches, lines 57-106, 118-186 and 198-266, each on the two arrays its
  lambda captures; \<open>sz\<close> is the scratch request. \<^verbatim>\<open>MHDCalcFlux\<close> returns the status,
  the object with the arrays as the sweeps left them, and the trace extended by what it
  executed.
\<close>

definition x1_sweep ::
  "('q, 'b, 'f, 'e, 'eos, 's) kernels \<Rightarrow> ('q, 'b, 'f, 'e, 'eos) MHD \<Rightarrow> 64 word
     \<Rightarrow> ('f, 'e) sweep \<Rightarrow> ('f, 'e) sweep" where
  "x1_sweep K this sz st =
     (let c = mb_cells (pmy_pack this) in
      par_for_outer3 ''mhd_flux_x1'' sz 0 (nmb_thispack (pmy_pack this) - 1) (ks c) (ke c) (js c) (je c)
        (x1_unit K this) st)"

definition x2_sweep ::
  "('q, 'b, 'f, 'e, 'eos, 's) kernels \<Rightarrow> ('q, 'b, 'f, 'e, 'eos) MHD \<Rightarrow> 64 word
     \<Rightarrow> ('f, 'e) sweep \<Rightarrow> ('f, 'e) sweep" where
  "x2_sweep K this sz st =
     (let c = mb_cells (pmy_pack this) in
      par_for_outer2 ''mhd_flux2'' sz 0 (nmb_thispack (pmy_pack this) - 1) (ks c) (ke c)
        (x2_unit K this) st)"

definition x3_sweep ::
  "('q, 'b, 'f, 'e, 'eos, 's) kernels \<Rightarrow> ('q, 'b, 'f, 'e, 'eos) MHD \<Rightarrow> 64 word
     \<Rightarrow> ('f, 'e) sweep \<Rightarrow> ('f, 'e) sweep" where
  "x3_sweep K this sz st =
     (let c = mb_cells (pmy_pack this) in
      par_for_outer2 ''divflux_x3'' sz 0 (nmb_thispack (pmy_pack this) - 1) (js c) (je c)
        (x3_unit K this) st)"

definition MHDCalcFlux ::
  "('q, 'b, 'f, 'e, 'eos, 's) kernels \<Rightarrow> int \<Rightarrow> ('q, 'b, 'f, 'e, 'eos) MHD \<Rightarrow> event list
     \<Rightarrow> TaskStatus \<times> ('q, 'b, 'f, 'e, 'eos) MHD \<times> event list" where
  "MHDCalcFlux K nmhd_local this tr =
     (let ncells1 = nx1 (mb_cells (pmy_pack this)) + 2 * ng (mb_cells (pmy_pack this));
          nvars = calc_nvars this nmhd_local;
          s1 = x1_sweep K this (scr_size K nvars ncells1 2)
                 \<lparr>flx = flux1 this, emf = emf_x1 this, trace = tr\<rparr>;
          this1 = this\<lparr>flux1 := flx s1, emf_x1 := emf s1\<rparr>
      in if \<not> nx2gt1 (pmesh (pmy_pack this)) then (complete, this1, trace s1)
         else
           (let s2 = x2_sweep K this (scr_size K nvars ncells1 3)
                       \<lparr>flx = flux2 this, emf = emf_x2 this, trace = trace s1\<rparr>;
                this2 = this1\<lparr>flux2 := flx s2, emf_x2 := emf s2\<rparr>
            in if \<not> nx3gt1 (pmesh (pmy_pack this)) then (complete, this2, trace s2)
               else
                 (let s3 = x3_sweep K this (scr_size K nvars ncells1 3)
                             \<lparr>flx = flux3 this, emf = emf_x3 this, trace = trace s2\<rparr>;
                      this3 = this2\<lparr>flux3 := flx s3, emf_x3 := emf s3\<rparr>
                  in (complete, this3, trace s3))))"


subsection \<open>The calls of one line, and an instance of the kernels\<close>

text \<open>
  The kernel calls of the two switches, as trace events: a recognised reconstruction
  method calls its kernel on \<^verbatim>\<open>w0\<close> and then on \<^verbatim>\<open>bcc0\<close>, a recognised solver is
  called once, and the \<^verbatim>\<open>default\<close> cases call nothing.
\<close>

definition recon_events ::
  "ReconstructionMethod \<Rightarrow> nat \<Rightarrow> int \<Rightarrow> int \<Rightarrow> int \<Rightarrow> int \<Rightarrow> int \<Rightarrow> event list" where
  "recon_events rm dir m k j il iu =
     (if rm = recon_unrecognized then []
      else [Recon rm dir W0 m k j il iu, Recon rm dir BCC0 m k j il iu])"

definition solve_events ::
  "MHD_RSolver \<Rightarrow> int \<Rightarrow> int \<Rightarrow> int \<Rightarrow> int \<Rightarrow> int \<Rightarrow> int \<Rightarrow> event list" where
  "solve_events rs m k j il iu ivx =
     (if rs = rsolver_unrecognized then [] else [Solve rs m k j il iu ivx])"

text \<open>
  What the team of a line is expected to call: in direction 1 for the line \<open>(m, k, j)\<close>,
  in directions 2 and 3 at the loop counter \<open>j\<close> resp. \<open>k\<close>.
\<close>

definition x1_events :: "('q, 'b, 'f, 'e, 'eos) MHD \<Rightarrow> int \<Rightarrow> int \<Rightarrow> int \<Rightarrow> event list" where
  "x1_events this m k j =
     recon_events (recon_method this) 1 m k j (is' (mb_cells (pmy_pack this)) - 1) (ie (mb_cells (pmy_pack this)) + 1) @
     solve_events (rsolver_method this) m k j (is' (mb_cells (pmy_pack this))) (ie (mb_cells (pmy_pack this)) + 1) IVX"

definition x2_events :: "('q, 'b, 'f, 'e, 'eos) MHD \<Rightarrow> int \<Rightarrow> int \<Rightarrow> int \<Rightarrow> event list" where
  "x2_events this m k j =
     recon_events (recon_method this) 2 m k j (is' (mb_cells (pmy_pack this)) - 1) (ie (mb_cells (pmy_pack this)) + 1) @
     (if j = js (mb_cells (pmy_pack this)) - 1 then []
      else solve_events (rsolver_method this) m k j
             (is' (mb_cells (pmy_pack this)) - 1) (ie (mb_cells (pmy_pack this)) + 1) IVY)"

definition x3_events :: "('q, 'b, 'f, 'e, 'eos) MHD \<Rightarrow> int \<Rightarrow> int \<Rightarrow> int \<Rightarrow> event list" where
  "x3_events this m j k =
     recon_events (recon_method this) 3 m k j (is' (mb_cells (pmy_pack this)) - 1) (ie (mb_cells (pmy_pack this)) + 1) @
     (if k = ks (mb_cells (pmy_pack this)) - 1 then []
      else solve_events (rsolver_method this) m k j
             (is' (mb_cells (pmy_pack this)) - 1) (ie (mb_cells (pmy_pack this)) + 1) IVZ)"

text \<open>
  Modelled from the spec: an instance of the kernels, which are not among the sources,
  that keeps of every array only where it was written. A reconstruction produces
  "estimates for every face in range": it writes both buffers at every \<open>i\<close> of
  \<open>[il, iu]\<close>. A solver "must write flux and EMF outputs at every face in the given
  range, including the range boundaries": it writes both arrays at \<open>(m, k, j, i)\<close> for
  every \<open>i\<close> of \<open>[il, iu]\<close>. A scratch buffer is the set of \<open>i\<close> written so far, a flux
  or EMF array the set of \<open>(m, k, j, i)\<close> written so far. The instance serves to run
  \<^verbatim>\<open>MHDCalcFlux\<close> on concrete inputs.
\<close>

type_synonym face = "int \<times> int \<times> int \<times> int"

definition footprint_recon :: "(unit, int set) recon_kernel" where
  "footprint_recon m k j il iu q ql qr = (ql \<union> {il..iu}, qr \<union> {il..iu})"

definition footprint_rsolver :: "(unit, face set, face set, unit, int set) rsolver_kernel" where
  "footprint_rsolver eos m k j il iu ivx wl' wr' bl' br' bx f e =
     (f \<union> (\<lambda>i. (m, k, j, i)) ` {il..iu}, e \<union> (\<lambda>i. (m, k, j, i)) ` {il..iu})"

definition footprint_kernels :: "(unit, unit, face set, face set, unit, int set) kernels" where
  "footprint_kernels =
     \<lparr>shmem_size = (\<lambda>n1 n2. word_of_int (8 * n1 * n2)),
      uninit = {},
      DonorCellX1 = footprint_recon, DonorCellX2 = footprint_recon,
      DonorCellX3 = footprint_recon,
      PiecewiseLinearX1 = footprint_recon, PiecewiseLinearX2 = footprint_recon,
      PiecewiseLinearX3 = footprint_recon,
      PiecewiseParabolicX1 = footprint_recon, PiecewiseParabolicX2 = footprint_recon,
      PiecewiseParabolicX3 = footprint_recon,
      Advect = footprint_rsolver, LLF = footprint_rsolver\<rparr>"

text \<open>
  A pack of one block of 2 x 2 x 2 active cells with two ghost cells on each side, five
  MHD variables and no scalars, piecewise-linear reconstruction and the LLF solver;
  nothing has been written to its flux and EMF arrays.
\<close>

definition example_mhd :: "(unit, unit, face set, face set, unit) MHD" where
  "example_mhd =
     \<lparr>pmy_pack =
        \<lparr>pmesh = \<lparr>nx2gt1 = True, nx3gt1 = True\<rparr>,
         mb_cells = \<lparr>is' = 2, ie = 3, js = 2, je = 3, ks = 2, ke = 3,
                     nx1 = 2, nx2 = 2, ng = 2\<rparr>,
         nmb_thispack = 1\<rparr>,
      nmhd = 5, nscalars = 0, recon_method = plm, rsolver_method = llf,
      u0 = (), w0 = (), bcc0 = (), b0 = \<lparr>x1f = (), x2f = (), x3f = ()\<rparr>, eos_data = (),
      flux1 = {}, flux2 = {}, flux3 = {}, emf_x1 = {}, emf_x2 = {}, emf_x3 = {}\<rparr>"

text \<open>The same data on a mesh of 2 x 2 x 1 cells, and on a mesh of one line of two cells.\<close>

definition example_mhd_2d :: "(unit, unit, face set, face set, unit) MHD" where
  "example_mhd_2d =
     example_mhd\<lparr>pmy_pack :=
        \<lparr>pmesh = \<lparr>nx2gt1 = True, nx3gt1 = False\<rparr>,
         mb_cells = \<lparr>is' = 2, ie = 3, js = 2, je = 3, ks = 0, ke = 0,
                     nx1 = 2, nx2 = 2, ng = 2\<rparr>,
         nmb_thispack = 1\<rparr>\<rparr>"

definition example_mhd_1d :: "(unit, unit, face set, face set, unit) MHD" where
  "example_mhd_1d =
     example_mhd\<lparr>pmy_pack :=
        \<lparr>pmesh = \<lparr>nx2gt1 = False, nx3gt1 = False\<rparr>,
         mb_cells = \<lparr>is' = 2, ie = 3, js = 0, je = 0, ks = 0, ke = 0,
                     nx1 = 2, nx2 = 1, ng = 2\<rparr>,
         nmb_thispack = 1\<rparr>\<rparr>"

text \<open>
  A second instance of the kernels, which keeps of every array where its contents come
  from. A reconstruction kernel labels the left and the right state it writes with the
  cell array it read, the side, and the line \<open>(m, k, j)\<close> it was called for; the cell
  arrays \<^verbatim>\<open>w0\<close> and \<^verbatim>\<open>bcc0\<close> hold their own names, and a buffer that was never written
  holds \<open>None\<close>. A solver appends to the flux array the four states it was given, in the
  order \<^verbatim>\<open>wl\<close>, \<^verbatim>\<open>wr\<close>, \<^verbatim>\<open>bl\<close>, \<^verbatim>\<open>br\<close>. The pack is the one of \<open>example_mhd\<close>.
\<close>

datatype side = left_state | right_state

type_synonym label = "(cell_array \<times> side \<times> int \<times> int \<times> int) option"

definition label_recon :: "(cell_array, label) recon_kernel" where
  "label_recon m k j il iu q ql qr =
     (Some (q, left_state, m, k, j), Some (q, right_state, m, k, j))"

definition label_rsolver ::
  "(unit, (label \<times> label \<times> label \<times> label) list, unit, unit, label) rsolver_kernel" where
  "label_rsolver eos m k j il iu ivx wl' wr' bl' br' bx f e = (f @ [(wl', wr', bl', br')], e)"

definition label_kernels ::
  "(cell_array, unit, (label \<times> label \<times> label \<times> label) list, unit, unit, label) kernels" where
  "label_kernels =
     \<lparr>shmem_size = (\<lambda>n1 n2. word_of_int (8 * n1 * n2)),
      uninit = None,
      DonorCellX1 = label_recon, DonorCellX2 = label_recon, DonorCellX3 = label_recon,
      PiecewiseLinearX1 = label_recon, PiecewiseLinearX2 = label_recon,
      PiecewiseLinearX3 = label_recon,
      PiecewiseParabolicX1 = label_recon, PiecewiseParabolicX2 = label_recon,
      PiecewiseParabolicX3 = label_recon,
      Advect = label_rsolver, LLF = label_rsolver\<rparr>"

definition label_mhd ::
  "(cell_array, unit, (label \<times> label \<times> label \<times> label) list, unit, unit) MHD" where
  "label_mhd =
     \<lparr>pmy_pack =
        \<lparr>pmesh = \<lparr>nx2gt1 = True, nx3gt1 = True\<rparr>,
         mb_cells = \<lparr>is' = 2, ie = 3, js = 2, je = 3, ks = 2, ke = 3,
                     nx1 = 2, nx2 = 2, ng = 2\<rparr>,
         nmb_thispack = 1\<rparr>,
      nmhd = 5, nscalars = 0, recon_method = plm, rsolver_method = llf,
      u0 = W0, w0 = W0, bcc0 = BCC0, b0 = \<lparr>x1f = (), x2f = (), x3f = ()\<rparr>, eos_data = (),
      flux1 = [], flux2 = [], flux3 = [], emf_x1 = (), emf_x2 = (), emf_x3 = ()\<rparr>"

section \<open>The problem generators: \<^verbatim>\<open>src/pgen/orszag_tang.cpp\<close> and \<^verbatim>\<open>src/pgen/part_static_turb.cpp\<close>\<close>

subsection \<open>Floating point\<close>

text \<open>
  \<^verbatim>\<open>Real\<close> is a floating-point type. Its values are a type variable, and its
  arithmetic is a parameter: the record \<open>fp_ops\<close> holds the operations the two
  generators use, with no law assumed of them, so every theorem holds for IEEE doubles
  with their rounding as for any other arithmetic. \<open>dbl x\<close> is the value of the decimal
  literal \<open>x\<close>, \<open>fp_of_int\<close> the conversion of an \<^verbatim>\<open>int\<close> operand, \<open>int_of_fp\<close> the
  \<^verbatim>\<open>static_cast<int>\<close>, \<open>M_PI\<close> the constant of \<^verbatim>\<open>math.h\<close>.
\<close>

record 'a fp_ops =
  dbl :: "real \<Rightarrow> 'a"
  fp_of_int :: "int \<Rightarrow> 'a"
  int_of_fp :: "'a \<Rightarrow> int"
  fadd :: "'a \<Rightarrow> 'a \<Rightarrow> 'a"
  fsub :: "'a \<Rightarrow> 'a \<Rightarrow> 'a"
  fmul :: "'a \<Rightarrow> 'a \<Rightarrow> 'a"
  fdiv :: "'a \<Rightarrow> 'a \<Rightarrow> 'a"
  fneg :: "'a \<Rightarrow> 'a"
  fsqrt :: "'a \<Rightarrow> 'a"
  fsin :: "'a \<Rightarrow> 'a"
  fcos :: "'a \<Rightarrow> 'a"
  fpow :: "'a \<Rightarrow> 'a \<Rightarrow> 'a"
  M_PI :: 'a

text \<open>The macro \<^verbatim>\<open>SQR\<close> of \<^verbatim>\<open>athena.hpp\<close>: its argument times itself.\<close>

definition SQR :: "'a fp_ops \<Rightarrow> 'a \<Rightarrow> 'a" where
  "SQR P x = fmul P x x"

text \<open>
  Where the order of the values matters (the clamping of the particle positions), a
  value is \<open>None\<close> for a NaN and \<open>Some x\<close> otherwise, with \<open>x\<close> of a linear order: the real
  line with the two infinities. \<^verbatim>\<open>fmin\<close> and \<^verbatim>\<open>fmax\<close> are those of \<^verbatim>\<open>cmath\<close>: a NaN
  argument is missing data, and the other argument is returned. \<open>fle\<close> is \<^verbatim>\<open><=\<close>,
  false when an operand is a NaN.
\<close>

definition fmin :: "'r::linorder option \<Rightarrow> 'r option \<Rightarrow> 'r option" where
  "fmin x y =
     (case x of None \<Rightarrow> y | Some a \<Rightarrow> (case y of None \<Rightarrow> x | Some b \<Rightarrow> Some (min a b)))"

definition fmax :: "'r::linorder option \<Rightarrow> 'r option \<Rightarrow> 'r option" where
  "fmax x y =
     (case x of None \<Rightarrow> y | Some a \<Rightarrow> (case y of None \<Rightarrow> x | Some b \<Rightarrow> Some (max a b)))"

definition fle :: "'r::linorder option \<Rightarrow> 'r option \<Rightarrow> bool" where
  "fle x y = (case x of None \<Rightarrow> False | Some a \<Rightarrow> (case y of None \<Rightarrow> False | Some b \<Rightarrow> a \<le> b))"

text \<open>The quotient of C++ on \<^verbatim>\<open>int\<close>, truncated towards zero; the divisor is not 0.\<close>

definition cpp_div :: "int \<Rightarrow> int \<Rightarrow> int" where
  "cpp_div a b = sgn a * sgn b * (\<bar>a\<bar> div \<bar>b\<bar>)"

subsection \<open>Arrays, blocks and the pack\<close>

text \<open>
  A Kokkos view is a map from index tuples to values; \<^verbatim>\<open>u0(m,IDN,k,j,i) = d0\<close> is an
  update of the map. The extents are not modelled.

  Modelled from the spec: the indices of the conserved variables, of \<^verbatim>\<open>athena.hpp\<close>,
  in the "fixed" ordering "density, three momentum/velocity components,
  energy/pressure". The indices of the particle arrays (\<^verbatim>\<open>IPX\<close>, ..., \<^verbatim>\<open>PGID\<close>,
  \<^verbatim>\<open>PSP\<close>) are enumerators whose declaration is not among the sources either; all
  that is used of them is that they are different rows.
\<close>

datatype cons_index = IDN | IM1 | IM2 | IM3 | IEN

datatype prtcl_real_index =
  IPX | IPY | IPZ | IPVX | IPVY | IPVZ | IPM | IPDX | IPDY | IPDZ | IPDB | IPBX | IPBY | IPBZ

datatype prtcl_int_index = PGID | PSP

type_synonym 'a DvceArray5D = "int \<times> cons_index \<times> int \<times> int \<times> int \<Rightarrow> 'a"

type_synonym 'a DvceArray4D = "int \<times> int \<times> int \<times> int \<Rightarrow> 'a"

text \<open>
  The size of one block. \<^verbatim>\<open>orszag_tang.cpp\<close> reads \<^verbatim>\<open>size.x1min.d_view(m)\<close> and
  \<^verbatim>\<open>part_static_turb.cpp\<close> reads \<^verbatim>\<open>mbsize.d_view(m).x1min\<close>: in both models the
  sizes are a map from the block \<open>m\<close> to this record.
\<close>

record 'a mb_size_t =
  x1min :: 'a
  x1max :: 'a
  x2min :: 'a
  x2max :: 'a
  x3min :: 'a
  x3max :: 'a
  dx1 :: 'a
  dx2 :: 'a
  dx3 :: 'a

record 'a EOS_Data =
  gamma :: 'a
  is_ideal :: bool

record 'a Particles =
  prtcl_rdata :: "prtcl_real_index \<times> int \<Rightarrow> 'a"
  prtcl_idata :: "prtcl_int_index \<times> int \<Rightarrow> int"
  nprtcl_thispack :: int
  nprtcl_perspec_thispack :: int
  nspecies :: int

text \<open>
  The pack as the problem generators read it: with the physics modules (a null pointer
  is \<open>None\<close>), the sizes of its blocks and the ids of its first and last block.
\<close>

record ('m, 'a) MeshBlockPack_pgen = MeshBlockPack +
  pmhd :: "'m option"
  ppart :: "'a Particles option"
  mbsize :: "int \<Rightarrow> 'a mb_size_t"
  gids :: int
  gide :: int

text \<open>\<^verbatim>\<open>exit(EXIT_FAILURE)\<close> after the message, and the division of an \<^verbatim>\<open>int\<close> by 0.\<close>

datatype pgen_error = FatalError | DivisionByZero

text \<open>
  Modelled from the spec: \<^verbatim>\<open>par_for\<close> of \<^verbatim>\<open>athena.hpp\<close>, which is not among the
  sources, a "parallel-for dispatch" that runs its body once for every index tuple of
  the inclusive ranges it is given. The model runs the bodies in the order of the
  serial loop nest. A body that fails ends the run.
\<close>

definition par_for4 ::
  "int \<Rightarrow> int \<Rightarrow> int \<Rightarrow> int \<Rightarrow> int \<Rightarrow> int \<Rightarrow> int \<Rightarrow> int
     \<Rightarrow> (int \<Rightarrow> int \<Rightarrow> int \<Rightarrow> int \<Rightarrow> 'st \<Rightarrow> 'st) \<Rightarrow> 'st \<Rightarrow> 'st" where
  "par_for4 ml mu kl ku jl ju il iu body st =
     fold (\<lambda>m. fold (\<lambda>k. fold (\<lambda>j. fold (\<lambda>i. body m k j i) [il..iu]) [jl..ju]) [kl..ku])
       [ml..mu] st"

fun par_for_list :: "(int \<Rightarrow> 'st \<Rightarrow> pgen_error + 'st) \<Rightarrow> int list \<Rightarrow> 'st \<Rightarrow> pgen_error + 'st" where
  "par_for_list body [] st = Inr st"
| "par_for_list body (p # ps) st =
     (case body p st of Inl e \<Rightarrow> Inl e | Inr st' \<Rightarrow> par_for_list body ps st')"

definition par_for1 ::
  "int \<Rightarrow> int \<Rightarrow> (int \<Rightarrow> 'st \<Rightarrow> pgen_error + 'st) \<Rightarrow> 'st \<Rightarrow> pgen_error + 'st" where
  "par_for1 il iu body st = par_for_list body [il..iu] st"

subsection \<open>The Orszag-Tang vortex\<close>

text \<open>
  \<^verbatim>\<open>CellCenterX\<close> and \<^verbatim>\<open>LeftEdgeX\<close> of \<^verbatim>\<open>utils/grid_locations.hpp\<close> are not among the
  sources: they are parameters.
\<close>

record 'a grid_locations =
  CellCenterX :: "int \<Rightarrow> int \<Rightarrow> 'a \<Rightarrow> 'a \<Rightarrow> 'a"
  LeftEdgeX :: "int \<Rightarrow> int \<Rightarrow> 'a \<Rightarrow> 'a \<Rightarrow> 'a"

text \<open>Lines 34-37. The global \<^verbatim>\<open>B0\<close> that the function reads is an argument.\<close>

definition A3 :: "'a fp_ops \<Rightarrow> 'a \<Rightarrow> 'a \<Rightarrow> 'a \<Rightarrow> 'a" where
  "A3 P B0 x1 x2 =
     fmul P (fdiv P B0 (fmul P (dbl P 4) (M_PI P)))
       (fsub P (fcos P (fmul P (fmul P (dbl P 4) (M_PI P)) x1))
               (fmul P (dbl P 2) (fcos P (fmul P (fmul P (dbl P 2) (M_PI P)) x2))))"

text \<open>Lines 54-57: the constants of the problem.\<close>

definition ot_B0 :: "'a fp_ops \<Rightarrow> 'a" where
  "ot_B0 P = fdiv P (dbl P 1) (fsqrt P (fmul P (dbl P 4) (M_PI P)))"

definition ot_d0 :: "'a fp_ops \<Rightarrow> 'a" where
  "ot_d0 P = fdiv P (dbl P 25) (fmul P (dbl P 36) (M_PI P))"

definition ot_v0 :: "'a fp_ops \<Rightarrow> 'a" where
  "ot_v0 P = dbl P 1"

definition ot_p0 :: "'a fp_ops \<Rightarrow> 'a" where
  "ot_p0 P = fdiv P (dbl P 5) (fmul P (dbl P 12) (M_PI P))"

text \<open>
  The body of the first kernel, lines 73-106, on the \<^verbatim>\<open>MHD\<close> object whose \<^verbatim>\<open>u0\<close> and
  \<^verbatim>\<open>b0\<close> it writes. \<open>c\<close> is \<^verbatim>\<open>pmbp->mb_cells\<close>, \<open>sz\<close> is \<^verbatim>\<open>size\<close>; the locals
  \<^verbatim>\<open>x1f\<close> and \<^verbatim>\<open>x2f\<close> are \<open>x1f'\<close> and \<open>x2f'\<close>, the names without a prime being the
  components of \<^verbatim>\<open>b0\<close>.
\<close>

definition pgen_ot1 ::
  "'a fp_ops \<Rightarrow> 'a grid_locations \<Rightarrow> mb_cells_t \<Rightarrow> (int \<Rightarrow> 'a mb_size_t) \<Rightarrow> 'a
     \<Rightarrow> int \<Rightarrow> int \<Rightarrow> int \<Rightarrow> int
     \<Rightarrow> ('a DvceArray5D, 'a DvceArray4D, 'f, 'e, 'a EOS_Data) MHD
     \<Rightarrow> ('a DvceArray5D, 'a DvceArray4D, 'f, 'e, 'a EOS_Data) MHD" where
  "pgen_ot1 P G c sz B0 m k j i mhd =
     (let d0 = ot_d0 P; v0 = ot_v0 P;
          x1v = CellCenterX G (i - is' c) (nx1 c) (x1min (sz m)) (x1max (sz m));
          x2v = CellCenterX G (j - js c) (nx2 c) (x2min (sz m)) (x2max (sz m));
          u = (u0 mhd)
                ((m, IDN, k, j, i) := d0,
                 (m, IM1, k, j, i) :=
                   fmul P (fmul P d0 v0) (fsin P (fmul P (fmul P (dbl P 2) (M_PI P)) x2v)),
                 (m, IM2, k, j, i) :=
                   fmul P (fmul P (fneg P d0) v0)
                     (fsin P (fmul P (fmul P (dbl P 2) (M_PI P)) x1v)),
                 (m, IM3, k, j, i) := dbl P 0);
          x1f' = LeftEdgeX G (i - is' c) (nx1 c) (x1min (sz m)) (x1max (sz m));
          x1fp1 = LeftEdgeX G (i + 1 - is' c) (nx1 c) (x1min (sz m)) (x1max (sz m));
          x2f' = LeftEdgeX G (j - js c) (nx2 c) (x2min (sz m)) (x2max (sz m));
          x2fp1 = LeftEdgeX G (j + 1 - js c) (nx2 c) (x2min (sz m)) (x2max (sz m));
          bx1 = (x1f (b0 mhd))
                  ((m, k, j, i) := fdiv P (fsub P (A3 P B0 x1f' x2fp1) (A3 P B0 x1f' x2f'))
                                     (dx2 (sz m)));
          bx2 = (x2f (b0 mhd))
                  ((m, k, j, i) :=
                     fdiv P (fneg P (fsub P (A3 P B0 x1fp1 x2f') (A3 P B0 x1f' x2f')))
                       (dx1 (sz m)));
          bx3 = (x3f (b0 mhd))((m, k, j, i) := dbl P 0);
          bx1 = (if i = ie c
                 then bx1((m, k, j, i + 1) :=
                        fdiv P (fsub P (A3 P B0 x1fp1 x2fp1) (A3 P B0 x1fp1 x2f')) (dx2 (sz m)))
                 else bx1);
          bx2 = (if j = je c
                 then bx2((m, k, j + 1, i) :=
                        fdiv P (fneg P (fsub P (A3 P B0 x1fp1 x2fp1) (A3 P B0 x1f' x2fp1)))
                          (dx1 (sz m)))
                 else bx2);
          bx3 = (if k = ke c then bx3((m, k + 1, j, i) := dbl P 0) else bx3)
      in mhd\<lparr>u0 := u, b0 := \<lparr>x1f = bx1, x2f = bx2, x3f = bx3\<rparr>\<rparr>)"

text \<open>The body of the second kernel, lines 111-118: the total energy.\<close>

definition pgen_ot2 ::
  "'a fp_ops \<Rightarrow> 'a \<Rightarrow> 'a \<Rightarrow> int \<Rightarrow> int \<Rightarrow> int \<Rightarrow> int
     \<Rightarrow> ('a DvceArray5D, 'a DvceArray4D, 'f, 'e, 'a EOS_Data) MHD
     \<Rightarrow> ('a DvceArray5D, 'a DvceArray4D, 'f, 'e, 'a EOS_Data) MHD" where
  "pgen_ot2 P p0 gm1 m k j i mhd =
     (let u = u0 mhd; b = b0 mhd in
      mhd\<lparr>u0 := u((m, IEN, k, j, i) :=
        fadd P
          (fadd P (fdiv P p0 gm1)
             (fmul P (fdiv P (dbl P 0.5) (u (m, IDN, k, j, i)))
                (fadd P (fadd P (SQR P (u (m, IM1, k, j, i))) (SQR P (u (m, IM2, k, j, i))))
                   (SQR P (u (m, IM3, k, j, i))))))
          (fmul P (dbl P 0.5)
             (fadd P
                (fadd P
                   (SQR P (fmul P (dbl P 0.5)
                      (fadd P (x1f b (m, k, j, i)) (x1f b (m, k, j, i + 1)))))
                   (SQR P (fmul P (dbl P 0.5)
                      (fadd P (x2f b (m, k, j, i)) (x2f b (m, k, j + 1, i))))))
                (SQR P (fmul P (dbl P 0.5)
                   (fadd P (x3f b (m, k, j, i)) (x3f b (m, k + 1, j, i))))))))\<rparr>)"

text \<open>
  \<^verbatim>\<open>ProblemGenerator::OrszagTang_\<close>, lines 45-122. It returns the pack with the
  \<^verbatim>\<open>MHD\<close> object as the two kernels left it, and the value it gave the global
  \<^verbatim>\<open>B0\<close>; without an \<^verbatim>\<open>MHD\<close> object it ends the program. (\<^verbatim>\<open>pin\<close> is not read.)
\<close>

definition OrszagTang ::
  "'a fp_ops \<Rightarrow> 'a grid_locations
     \<Rightarrow> (('a DvceArray5D, 'a DvceArray4D, 'f, 'e, 'a EOS_Data) MHD, 'a) MeshBlockPack_pgen
     \<Rightarrow> pgen_error +
        (('a DvceArray5D, 'a DvceArray4D, 'f, 'e, 'a EOS_Data) MHD, 'a) MeshBlockPack_pgen \<times> 'a"
  where
  "OrszagTang P G pmbp =
     (case pmhd pmbp of
        None \<Rightarrow> Inl FatalError
      | Some mhd \<Rightarrow>
          (let B0 = ot_B0 P;
               p0 = ot_p0 P;
               c = mb_cells pmbp;
               gm1 = fsub P (gamma (eos_data mhd)) (dbl P 1);
               mhd1 = par_for4 0 (nmb_thispack pmbp - 1) (ks c) (ke c) (js c) (je c)
                        (is' c) (ie c) (pgen_ot1 P G c (mbsize pmbp) B0) mhd;
               mhd2 = par_for4 0 (nmb_thispack pmbp - 1) (ks c) (ke c) (js c) (je c)
                        (is' c) (ie c) (pgen_ot2 P p0 gm1) mhd1
           in Inr (pmbp\<lparr>pmhd := Some mhd2\<rparr>, B0)))"

subsection \<open>The particles of \<^verbatim>\<open>part_static_turb.cpp\<close>\<close>

text \<open>
  The body of the kernel of lines 77-118 for the particle \<open>p\<close>, on the two particle
  arrays. \<open>frand p n\<close> is the \<open>n\<close>-th number the thread of particle \<open>p\<close> draws from its
  generator: any values at all. The captured variables are arguments: \<open>sz\<close> is
  \<^verbatim>\<open>mbsize\<close>, \<open>nmbtp\<close> the number of blocks of the pack, \<open>npart_spec\<close> and \<open>nspec\<close> are
  \<^verbatim>\<open>npart_spec\<close> and \<^verbatim>\<open>nspecies_\<close>, \<open>min_mass\<close> and \<open>mls\<close> the two input parameters.
  A value is \<open>None\<close> or \<open>Some x\<close> as described above.
\<close>

definition part_update ::
  "('r::linorder option) fp_ops \<Rightarrow> (int \<Rightarrow> nat \<Rightarrow> 'r option) \<Rightarrow> (int \<Rightarrow> 'r option mb_size_t)
     \<Rightarrow> int \<Rightarrow> int \<Rightarrow> int \<Rightarrow> int \<Rightarrow> int \<Rightarrow> 'r option \<Rightarrow> 'r option \<Rightarrow> int
     \<Rightarrow> (prtcl_int_index \<times> int \<Rightarrow> int) \<times> (prtcl_real_index \<times> int \<Rightarrow> 'r option)
     \<Rightarrow> pgen_error +
        (prtcl_int_index \<times> int \<Rightarrow> int) \<times> (prtcl_real_index \<times> int \<Rightarrow> 'r option)" where
  "part_update P frand sz gids' gide' nmbtp npart_spec nspec min_mass mls p s =
     (let m = int_of_fp P (fmul P (frand p 0)
                (fadd P (fp_of_int P (gide' - gids')) (dbl P 1)));
          m = max m 0;
          m = min m (nmbtp - 1);
          pi = (fst s)((PGID, p) := gids' + m)
      in if npart_spec = 0 then Inl DivisionByZero
         else
           (let spec = cpp_div p npart_spec;
                spec = max spec 0;
                spec = min spec (nspec - 1);
                pi = pi((PSP, p) := spec);
                rand = frand p 1;
                pr = (snd s)((IPX, p) :=
                       fadd P (fmul P (fsub P (dbl P 1) rand) (x1min (sz m)))
                         (fmul P rand (x1max (sz m))));
                pr = pr((IPX, p) := fmin (pr (IPX, p)) (x1max (sz m)));
                pr = pr((IPX, p) := fmax (pr (IPX, p)) (x1min (sz m)));
                rand = frand p 2;
                pr = pr((IPY, p) :=
                       fadd P (fmul P (fsub P (dbl P 1) rand) (x2min (sz m)))
                         (fmul P rand (x2max (sz m))));
                pr = pr((IPY, p) := fmin (pr (IPY, p)) (x2max (sz m)));
                pr = pr((IPY, p) := fmax (pr (IPY, p)) (x2min (sz m)));
                rand = frand p 3;
                pr = pr((IPZ, p) :=
                       fadd P (fmul P (fsub P (dbl P 1) rand) (x3min (sz m)))
                         (fmul P rand (x3max (sz m))));
                pr = pr((IPZ, p) := fmin (pr (IPZ, p)) (x3max (sz m)));
                pr = pr((IPZ, p) := fmax (pr (IPZ, p)) (x3min (sz m)));
                mu = dbl P 0.99;
                phi = fmul P (fmul P (dbl P 2) (M_PI P)) (frand p 4);
                pr = pr((IPVX, p) :=
                       fmul P (fsqrt P (fsub P (dbl P 1) (fmul P mu mu))) (fcos P phi));
                pr = pr((IPVY, p) :=
                       fmul P (fsqrt P (fsub P (dbl P 1) (fmul P mu mu))) (fsin P phi));
                pr = pr((IPVZ, p) := mu);
                pr = pr((IPM, p) := fmul P min_mass (fpow P mls (fp_of_int P spec)));
                pr = pr((IPDX, p) := dbl P 0);
                pr = pr((IPDY, p) := dbl P 0);
                pr = pr((IPDZ, p) := dbl P 0);
                pr = pr((IPDB, p) := dbl P 0);
                pr = pr((IPBX, p) := dbl P 0);
                pr = pr((IPBY, p) := dbl P 0);
                pr = pr((IPBZ, p) := dbl P 1)
            in Inr (pi, pr)))"

text \<open>
  \<^verbatim>\<open>ProblemGenerator::UserProblem\<close>, lines 36-118: the check of \<^verbatim>\<open>ppart\<close> and the
  initialisation of the particles. What follows in the source (lines 120-212) sets the
  time step and the MHD variables and writes neither particle array; it is not
  modelled.
\<close>

definition UserProblem ::
  "('r::linorder option) fp_ops \<Rightarrow> (int \<Rightarrow> nat \<Rightarrow> 'r option) \<Rightarrow> 'r option \<Rightarrow> 'r option
     \<Rightarrow> ('m, 'r option) MeshBlockPack_pgen
     \<Rightarrow> pgen_error + ('m, 'r option) MeshBlockPack_pgen" where
  "UserProblem P frand min_mass mls pmbp =
     (case ppart pmbp of
        None \<Rightarrow> Inl FatalError
      | Some pp \<Rightarrow>
          (case par_for1 0 (nprtcl_thispack pp - 1)
                  (part_update P frand (mbsize pmbp) (gids pmbp) (gide pmbp)
                     (nmb_thispack pmbp) (nprtcl_perspec_thispack pp) (nspecies pp)
                     min_mass mls)
                  (prtcl_idata pp, prtcl_rdata pp) of
             Inl e \<Rightarrow> Inl e
           | Inr s \<Rightarrow>
               Inr (pmbp\<lparr>ppart := Some (pp\<lparr>prtcl_idata := fst s, prtcl_rdata := snd s\<rparr>)\<rparr>)))"

subsection \<open>What the claims on the generators say\<close>

text \<open>
  A block is well formed when its lower bound is at most its upper bound in each
  direction (so that neither is a NaN). A particle \<open>p\<close> is in bounds when its parent
  block \<^verbatim>\<open>PGID\<close> is a block of the pack, its species \<^verbatim>\<open>PSP\<close> is one of the \<open>nspec\<close>
  species, and its position is within the bounds of its parent block.
\<close>

definition block_ok :: "('r::linorder) option mb_size_t \<Rightarrow> bool" where
  "block_ok b = (fle (x1min b) (x1max b) \<and> fle (x2min b) (x2max b) \<and> fle (x3min b) (x3max b))"

definition particle_ok ::
  "(int \<Rightarrow> ('r::linorder) option mb_size_t) \<Rightarrow> int \<Rightarrow> int \<Rightarrow> int \<Rightarrow> int
     \<Rightarrow> (prtcl_int_index \<times> int \<Rightarrow> int) \<times> (prtcl_real_index \<times> int \<Rightarrow> 'r option) \<Rightarrow> bool" where
  "particle_ok sz gids' nmb nspec p s =
     (let g = fst s (PGID, p); b = sz (g - gids') in
      gids' \<le> g \<and> g \<le> gids' + nmb - 1 \<and>
      0 \<le> fst s (PSP, p) \<and> fst s (PSP, p) \<le> nspec - 1 \<and>
      fle (x1min b) (snd s (IPX, p)) \<and> fle (snd s (IPX, p)) (x1max b) \<and>
      fle (x2min b) (snd s (IPY, p)) \<and> fle (snd s (IPY, p)) (x2max b) \<and>
      fle (x3min b) (snd s (IPZ, p)) \<and> fle (snd s (IPZ, p)) (x3max b))"

text \<open>
  The state of the cell \<open>(m, k, j, i)\<close> that the Orszag-Tang generator is to set: the
  density \<open>d0 = 25/(36 pi)\<close>, the momentum \<open>(d0 v0 sin(2 pi x2), - d0 v0 sin(2 pi x1), 0)\<close>
  with \<open>v0 = 1\<close> at the cell centre, and the face-centred field as the differences of
  the vector potential \<open>A(x1, x2) = (B0/(4 pi)) (cos(4 pi x1) - 2 cos(2 pi x2))\<close> with
  \<open>B0 = 1/sqrt(4 pi)\<close> along the faces, with a zero third component: on the lower faces
  of the cell and, for a cell at the upper edge of the block in a direction, on its upper
  face in that direction. Every formula is written out in the arithmetic \<open>P\<close>, with the
  operations in the order of the C++ expressions, and names none of the functions of the
  generator.
\<close>

definition ot_cell ::
  "'a fp_ops \<Rightarrow> 'a grid_locations \<Rightarrow> mb_cells_t \<Rightarrow> (int \<Rightarrow> 'a mb_size_t)
     \<Rightarrow> int \<Rightarrow> int \<Rightarrow> int \<Rightarrow> int
     \<Rightarrow> ('a DvceArray5D, 'a DvceArray4D, 'f, 'e, 'a EOS_Data) MHD \<Rightarrow> bool" where
  "ot_cell P G c sz m k j i mhd =
     (let d0 = fdiv P (dbl P 25) (fmul P (dbl P 36) (M_PI P));
          v0 = dbl P 1;
          B0 = fdiv P (dbl P 1) (fsqrt P (fmul P (dbl P 4) (M_PI P)));
          A = (\<lambda>x1 x2.
                 fmul P (fdiv P B0 (fmul P (dbl P 4) (M_PI P)))
                   (fsub P (fcos P (fmul P (fmul P (dbl P 4) (M_PI P)) x1))
                      (fmul P (dbl P 2) (fcos P (fmul P (fmul P (dbl P 2) (M_PI P)) x2)))));
          x1v = CellCenterX G (i - is' c) (nx1 c) (x1min (sz m)) (x1max (sz m));
          x2v = CellCenterX G (j - js c) (nx2 c) (x2min (sz m)) (x2max (sz m));
          x1l = LeftEdgeX G (i - is' c) (nx1 c) (x1min (sz m)) (x1max (sz m));
          x1r = LeftEdgeX G (i + 1 - is' c) (nx1 c) (x1min (sz m)) (x1max (sz m));
          x2l = LeftEdgeX G (j - js c) (nx2 c) (x2min (sz m)) (x2max (sz m));
          x2r = LeftEdgeX G (j + 1 - js c) (nx2 c) (x2min (sz m)) (x2max (sz m))
      in u0 mhd (m, IDN, k, j, i) = d0 \<and>
         u0 mhd (m, IM1, k, j, i) =
           fmul P (fmul P d0 v0) (fsin P (fmul P (fmul P (dbl P 2) (M_PI P)) x2v)) \<and>
         u0 mhd (m, IM2, k, j, i) =
           fmul P (fmul P (fneg P d0) v0) (fsin P (fmul P (fmul P (dbl P 2) (M_PI P)) x1v)) \<and>
         u0 mhd (m, IM3, k, j, i) = dbl P 0 \<and>
         x1f (b0 mhd) (m, k, j, i) = fdiv P (fsub P (A x1l x2r) (A x1l x2l)) (dx2 (sz m)) \<and>
         x2f (b0 mhd) (m, k, j, i) =
           fdiv P (fneg P (fsub P (A x1r x2l) (A x1l x2l))) (dx1 (sz m)) \<and>
         x3f (b0 mhd) (m, k, j, i) = dbl P 0 \<and>
         (i = ie c \<longrightarrow>
            x1f (b0 mhd) (m, k, j, i + 1) =
              fdiv P (fsub P (A x1r x2r) (A x1r x2l)) (dx2 (sz m))) \<and>
         (j = je c \<longrightarrow>
            x2f (b0 mhd) (m, k, j + 1, i) =
              fdiv P (fneg P (fsub P (A x1r x2r) (A x1l x2r))) (dx1 (sz m))) \<and>
         (k = ke c \<longrightarrow> x3f (b0 mhd) (m, k + 1, j, i) = dbl P 0))"

subsection \<open>Instances of the arithmetic\<close>

text \<open>
  Exact arithmetic on the reals, and the same with a NaN that every operation
  propagates; the cell centres and left edges of a uniform grid. They serve to run the
  generators on concrete inputs.
\<close>

definition exact_ops :: "real fp_ops" where
  "exact_ops =
     \<lparr>dbl = (\<lambda>x. x), fp_of_int = of_int,
      int_of_fp = (\<lambda>x. if 0 \<le> x then \<lfloor>x\<rfloor> else \<lceil>x\<rceil>),
      fadd = (+), fsub = (-), fmul = (*), fdiv = (/), fneg = uminus,
      fsqrt = sqrt, fsin = sin, fcos = cos, fpow = (powr), M_PI = pi\<rparr>"

definition lift2 :: "('a \<Rightarrow> 'a \<Rightarrow> 'a) \<Rightarrow> 'a option \<Rightarrow> 'a option \<Rightarrow> 'a option" where
  "lift2 f x y = (case x of None \<Rightarrow> None | Some a \<Rightarrow> map_option (f a) y)"

definition exact_nan_ops :: "real option fp_ops" where
  "exact_nan_ops =
     \<lparr>dbl = Some, fp_of_int = (\<lambda>n. Some (of_int n)),
      int_of_fp = (\<lambda>x. case x of None \<Rightarrow> 0 | Some a \<Rightarrow> if 0 \<le> a then \<lfloor>a\<rfloor> else \<lceil>a\<rceil>),
      fadd = lift2 (+), fsub = lift2 (-), fmul = lift2 (*), fdiv = lift2 (/),
      fneg = map_option uminus,
      fsqrt = map_option sqrt, fsin = map_option sin, fcos = map_option cos,
      fpow = lift2 (powr), M_PI = Some pi\<rparr>"

definition uniform_grid :: "real grid_locations" where
  "uniform_grid =
     \<lparr>CellCenterX = (\<lambda>ith n xmin xmax. xmin + (of_int ith + 1 / 2) * (xmax - xmin) / of_int n),
      LeftEdgeX = (\<lambda>ith n xmin xmax. xmin + of_int ith * (xmax - xmin) / of_int n)\<rparr>"

text \<open>
  A pack of one block, the unit cube, with two particles of one species whose arrays
  hold NaNs and zeros; and a pack of one block \<open>[-1/2, 1/2]\<^sup>2\<close> of 4 x 2 x 1 cells with
  an \<^verbatim>\<open>MHD\<close> object whose arrays hold zeros.
\<close>

definition example_prtcl :: "real option Particles" where
  "example_prtcl =
     \<lparr>prtcl_rdata = (\<lambda>x. None), prtcl_idata = (\<lambda>x. 0), nprtcl_thispack = 2,
      nprtcl_perspec_thispack = 2, nspecies = 1\<rparr>"

definition example_particles :: "(unit, real option) MeshBlockPack_pgen" where
  "example_particles =
     \<lparr>pmesh = \<lparr>nx2gt1 = True, nx3gt1 = True\<rparr>,
      mb_cells = \<lparr>is' = 2, ie = 3, js = 2, je = 3, ks = 2, ke = 3, nx1 = 2, nx2 = 2, ng = 2\<rparr>,
      nmb_thispack = 1,
      pmhd = None,
      ppart = Some example_prtcl,
      mbsize = (\<lambda>m. \<lparr>x1min = Some 0, x1max = Some 1, x2min = Some 0, x2max = Some 1,
                      x3min = Some 0, x3max = Some 1,
                      dx1 = Some (1 / 2), dx2 = Some (1 / 2), dx3 = Some (1 / 2)\<rparr>),
      gids = 0, gide = 0\<rparr>"

definition example_ot_mhd ::
  "(real DvceArray5D, real DvceArray4D, unit, unit, real EOS_Data) MHD" where
  "example_ot_mhd =
     \<lparr>pmy_pack = \<lparr>pmesh = \<lparr>nx2gt1 = True, nx3gt1 = False\<rparr>,
                   mb_cells = \<lparr>is' = 2, ie = 5, js = 2, je = 3, ks = 0, ke = 0,
                               nx1 = 4, nx2 = 2, ng = 2\<rparr>,
                   nmb_thispack = 1\<rparr>,
      nmhd = 5, nscalars = 0, recon_method = plm, rsolver_method = llf,
      u0 = (\<lambda>x. 0), w0 = (\<lambda>x. 0), bcc0 = (\<lambda>x. 0),
      b0 = \<lparr>x1f = (\<lambda>x. 0), x2f = (\<lambda>x. 0), x3f = (\<lambda>x. 0)\<rparr>,
      eos_data = \<lparr>gamma = 5 / 3, is_ideal = True\<rparr>,
      flux1 = (), flux2 = (), flux3 = (), emf_x1 = (), emf_x2 = (), emf_x3 = ()\<rparr>"

definition example_ot ::
  "((real DvceArray5D, real DvceArray4D, unit, unit, real EOS_Data) MHD, real)
     MeshBlockPack_pgen" where
  "example_ot =
     \<lparr>pmesh = \<lparr>nx2gt1 = True, nx3gt1 = False\<rparr>,
      mb_cells = \<lparr>is' = 2, ie = 5, js = 2, je = 3, ks = 0, ke = 0, nx1 = 4, nx2 = 2, ng = 2\<rparr>,
      nmb_thispack = 1,
      pmhd = Some example_ot_mhd,
      ppart = None,
      mbsize = (\<lambda>m. \<lparr>x1min = - 1 / 2, x1max = 1 / 2, x2min = - 1 / 2, x2max = 1 / 2,
                      x3min = - 1 / 2, x3max = 1 / 2, dx1 = 1 / 4, dx2 = 1 / 2, dx3 = 1\<rparr>),
      gids = 0, gide = 0\<rparr>"

section \<open>Properties of the flux sweep\<close>

subsection \<open>Loops and traces\<close>

lemma trace_fold:
  "(\<And>x s. trace (f x s) = trace s @ g x) \<Longrightarrow> trace (fold f xs s) = trace s @ concat (map g xs)"
  by (induction xs arbitrary: s) simp_all

lemma trace_snd_fold:
  "(\<And>x s. trace (snd (f x s)) = trace (snd s) @ g x) \<Longrightarrow>
     trace (snd (fold f xs s)) = trace (snd s) @ concat (map g xs)"
  by (induction xs arbitrary: s) simp_all

lemma fold_inv: "(\<And>x s. h (f x s) = h s) \<Longrightarrow> h (fold f xs s) = h s"
  by (induction xs arbitrary: s) simp_all

lemma x2_loop_fold:
  "x2_loop K this m k j s = fold (x2_body K this m k) [j..je (mb_cells (pmy_pack this)) + 1] s"
proof (induction K this m k j s rule: x2_loop.induct)
  case (1 K this m k j s)
  show ?case
  proof (cases "j \<le> je (mb_cells (pmy_pack this)) + 1")
    case True
    then show ?thesis
      using "1.IH" by (subst x2_loop.simps) (simp add: upto_rec1[of j])
  next
    case False
    then show ?thesis by (subst x2_loop.simps) simp
  qed
qed

lemma x3_loop_fold:
  "x3_loop K this m j k s = fold (x3_body K this m j) [k..ke (mb_cells (pmy_pack this)) + 1] s"
proof (induction K this m j k s rule: x3_loop.induct)
  case (1 K this m j k s)
  show ?case
  proof (cases "k \<le> ke (mb_cells (pmy_pack this)) + 1")
    case True
    then show ?thesis
      using "1.IH" by (subst x3_loop.simps) (simp add: upto_rec1[of k])
  next
    case False
    then show ?thesis by (subst x3_loop.simps) simp
  qed
qed

lemma trace_rsolver_switch:
  "trace (rsolver_switch K rs eos m k j il iu ivx a b c d bx st) =
     trace st @ solve_events rs m k j il iu ivx"
  by (cases rs) (simp_all add: rsolver_switch_def solve_events_def split: prod.splits)

lemma rsolver_switch_unrecognized:
  "rsolver_switch K rsolver_unrecognized eos m k j il iu ivx a b c d bx st = st"
  by (simp add: rsolver_switch_def)

lemma snd_reconstruct_x1:
  "snd (reconstruct_x1 K rm m k j il iu w b) = recon_events rm 1 m k j il iu"
  by (cases rm) (simp_all add: reconstruct_x1_def recon_events_def)

lemma snd_reconstruct_x2:
  "snd (reconstruct_x2 K rm m k j il iu w b r mem) = recon_events rm 2 m k j il iu"
  by (cases rm) (simp_all add: reconstruct_x2_def recon_events_def)

lemma snd_reconstruct_x3:
  "snd (reconstruct_x3 K rm m k j il iu w b r mem) = recon_events rm 3 m k j il iu"
  by (cases rm) (simp_all add: reconstruct_x3_def recon_events_def)

lemma trace_x1_unit: "trace (x1_unit K this m k j st) = trace st @ x1_events this m k j"
  using snd_reconstruct_x1[of K "recon_method this" m k j "is' (mb_cells (pmy_pack this)) - 1"
      "ie (mb_cells (pmy_pack this)) + 1" "w0 this" "bcc0 this"]
  by (auto simp add: x1_unit_def x1_events_def Let_def trace_rsolver_switch split: prod.splits)

lemma snd_x2_body:
  "snd (x2_body K this m k j s) =
     (let c = mb_cells (pmy_pack this);
          mem = fst (x2_body K this m k j s);
          st = (snd s)\<lparr>trace := trace (snd s) @
                  recon_events (recon_method this) 2 m k j (is' c - 1) (ie c + 1)\<rparr>
      in if j > js c - 1
         then rsolver_switch K (rsolver_method this) (eos_data this) m k j
                (is' c - 1) (ie c + 1) IVY
                (mem (wl (permute j))) (mem (wr (permute j)))
                (mem (bl (permute j))) (mem (br (permute j))) (x2f (b0 this)) st
         else st)"
  using snd_reconstruct_x2[of K "recon_method this" m k j "is' (mb_cells (pmy_pack this)) - 1"
      "ie (mb_cells (pmy_pack this)) + 1" "w0 this" "bcc0 this" "permute j" "fst s"]
  by (auto simp add: x2_body_def Let_def split: prod.splits)

lemma snd_x3_body:
  "snd (x3_body K this m j k s) =
     (let c = mb_cells (pmy_pack this);
          mem = fst (x3_body K this m j k s);
          st = (snd s)\<lparr>trace := trace (snd s) @
                  recon_events (recon_method this) 3 m k j (is' c - 1) (ie c + 1)\<rparr>
      in if k > ks c - 1
         then rsolver_switch K (rsolver_method this) (eos_data this) m k j
                (is' c - 1) (ie c + 1) IVZ
                (mem (wl (permute k))) (mem (wr (permute k)))
                (mem (bl (permute k))) (mem (br (permute k))) (x3f (b0 this)) st
         else st)"
  using snd_reconstruct_x3[of K "recon_method this" m k j "is' (mb_cells (pmy_pack this)) - 1"
      "ie (mb_cells (pmy_pack this)) + 1" "w0 this" "bcc0 this" "permute k" "fst s"]
  by (auto simp add: x3_body_def Let_def split: prod.splits)

lemma trace_x2_body:
  "js (mb_cells (pmy_pack this)) - 1 \<le> j \<Longrightarrow>
     trace (snd (x2_body K this m k j s)) = trace (snd s) @ x2_events this m k j"
  by (simp add: snd_x2_body Let_def trace_rsolver_switch x2_events_def)

lemma trace_x3_body:
  "ks (mb_cells (pmy_pack this)) - 1 \<le> k \<Longrightarrow>
     trace (snd (x3_body K this m j k s)) = trace (snd s) @ x3_events this m j k"
  by (simp add: snd_x3_body Let_def trace_rsolver_switch x3_events_def)

lemma trace_snd_fold_upto:
  "(\<And>x s. l \<le> x \<Longrightarrow> trace (snd (f x s)) = trace (snd s) @ g x) \<Longrightarrow> l \<le> i \<Longrightarrow>
     trace (snd (fold f [i..u] s)) = trace (snd s) @ concat (map g [i..u])"
proof (induction "nat (u + 1 - i)" arbitrary: i s)
  case 0
  then show ?case by simp
next
  case (Suc n)
  from Suc.hyps(2) have le: "i \<le> u" by simp
  have n: "n = nat (u + 1 - (i + 1))" using Suc.hyps(2) by simp
  have "trace (snd (fold f [i + 1..u] (f i s))) =
      trace (snd (f i s)) @ concat (map g [i + 1..u])"
    using Suc.hyps(1)[OF n Suc.prems(1)] Suc.prems(2) by simp
  then show ?case
    using le Suc.prems by (simp add: upto_rec1[of i])
qed

lemma trace_x2_unit:
  "trace (x2_unit K this m k st) =
     trace st @ concat (map (x2_events this m k) [js (mb_cells (pmy_pack this)) - 1..je (mb_cells (pmy_pack this)) + 1])"
  unfolding x2_unit_def x2_loop_fold
  by (subst trace_snd_fold_upto[where g = "x2_events this m k" and l = "js (mb_cells (pmy_pack this)) - 1"])
     (simp_all add: trace_x2_body)

lemma trace_x3_unit:
  "trace (x3_unit K this m j st) =
     trace st @ concat (map (x3_events this m j) [ks (mb_cells (pmy_pack this)) - 1..ke (mb_cells (pmy_pack this)) + 1])"
  unfolding x3_unit_def x3_loop_fold
  by (subst trace_snd_fold_upto[where g = "x3_events this m j" and l = "ks (mb_cells (pmy_pack this)) - 1"])
     (simp_all add: trace_x3_body)

lemma trace_par_for_outer3:
  assumes "\<And>m k j s. trace (body m k j s) = trace s @ g m k j"
  shows "trace (par_for_outer3 name sz ml mu kl ku jl ju body st) =
     trace st @ Launch name sz #
       concat (map (\<lambda>m. concat (map (\<lambda>k. concat (map (\<lambda>j. g m k j) [jl..ju])) [kl..ku])) [ml..mu])"
  unfolding par_for_outer3_def
  by (simp add: trace_fold[where f = "\<lambda>m. fold (\<lambda>k. fold (body m k) [jl..ju]) [kl..ku]"
        and g = "\<lambda>m. concat (map (\<lambda>k. concat (map (\<lambda>j. g m k j) [jl..ju])) [kl..ku])"]
      trace_fold[where g = "\<lambda>k. concat (map (\<lambda>j. g m k j) [jl..ju])" for m]
      trace_fold[where g = "g m k" for m k] assms)

lemma trace_par_for_outer2:
  assumes "\<And>m k s. trace (body m k s) = trace s @ g m k"
  shows "trace (par_for_outer2 name sz ml mu kl ku body st) =
     trace st @ Launch name sz #
       concat (map (\<lambda>m. concat (map (\<lambda>k. g m k) [kl..ku])) [ml..mu])"
  unfolding par_for_outer2_def
  by (simp add: trace_fold[where f = "\<lambda>m. fold (body m) [kl..ku]"
        and g = "\<lambda>m. concat (map (\<lambda>k. g m k) [kl..ku])"]
      trace_fold[where g = "g m" for m] assms)

lemma trace_x1_sweep:
  "trace (x1_sweep K this sz st) =
     trace st @ Launch ''mhd_flux_x1'' sz #
       concat (map (\<lambda>m. concat (map (\<lambda>k. concat (map (\<lambda>j. x1_events this m k j)
         [js (mb_cells (pmy_pack this))..je (mb_cells (pmy_pack this))])) [ks (mb_cells (pmy_pack this))..ke (mb_cells (pmy_pack this))]))
         [0..nmb_thispack (pmy_pack this) - 1])"
  unfolding x1_sweep_def Let_def
  by (rule trace_par_for_outer3) (rule trace_x1_unit)

subsection \<open>Launches\<close>

lemma no_Launch_recon_events [simp]: "filter is_Launch (recon_events rm dir m k j il iu) = []"
  by (simp add: recon_events_def)

lemma no_Launch_solve_events [simp]: "filter is_Launch (solve_events rs m k j il iu ivx) = []"
  by (simp add: solve_events_def)

lemma filter_concat_map_Nil:
  "(\<And>x. filter P (g x) = []) \<Longrightarrow> filter P (concat (map g xs)) = []"
  by (induction xs) simp_all

lemma launches_x1_sweep:
  "filter is_Launch (trace (x1_sweep K this sz st)) =
     filter is_Launch (trace st) @ [Launch ''mhd_flux_x1'' sz]"
  by (simp add: trace_x1_sweep filter_concat_map_Nil x1_events_def)

lemma launches_x2_sweep:
  "filter is_Launch (trace (x2_sweep K this sz st)) =
     filter is_Launch (trace st) @ [Launch ''mhd_flux2'' sz]"
  unfolding x2_sweep_def Let_def
  by (subst trace_par_for_outer2[where g = "\<lambda>m k. concat (map (x2_events this m k)
        [js (mb_cells (pmy_pack this)) - 1..je (mb_cells (pmy_pack this)) + 1])"])
     (simp_all add: trace_x2_unit filter_concat_map_Nil x2_events_def)

lemma launches_x3_sweep:
  "filter is_Launch (trace (x3_sweep K this sz st)) =
     filter is_Launch (trace st) @ [Launch ''divflux_x3'' sz]"
  unfolding x3_sweep_def Let_def
  by (subst trace_par_for_outer2[where g = "\<lambda>m j. concat (map (x3_events this m j)
        [ks (mb_cells (pmy_pack this)) - 1..ke (mb_cells (pmy_pack this)) + 1])"])
     (simp_all add: trace_x3_unit filter_concat_map_Nil x3_events_def)

lemma launches_MHDCalcFlux:
  "filter is_Launch (snd (snd (MHDCalcFlux K v this tr))) =
     filter is_Launch tr @
     Launch ''mhd_flux_x1''
       (scr_size K (calc_nvars this v) (nx1 (mb_cells (pmy_pack this)) + 2 * ng (mb_cells (pmy_pack this))) 2) #
     (if nx2gt1 (pmesh (pmy_pack this))
      then Launch ''mhd_flux2''
             (scr_size K (calc_nvars this v) (nx1 (mb_cells (pmy_pack this)) + 2 * ng (mb_cells (pmy_pack this))) 3) #
           (if nx3gt1 (pmesh (pmy_pack this))
            then [Launch ''divflux_x3''
                    (scr_size K (calc_nvars this v)
                       (nx1 (mb_cells (pmy_pack this)) + 2 * ng (mb_cells (pmy_pack this))) 3)]
            else [])
      else [])"
  by (simp add: MHDCalcFlux_def Let_def launches_x1_sweep launches_x2_sweep launches_x3_sweep)


subsection \<open>The permuted buffers\<close>

lemma cpp_rem_2: "cpp_rem j 2 = 0 \<longleftrightarrow> even j"
  unfolding cpp_rem_def by (cases "j < 0") (simp_all add: sgn_if; presburger)+

lemma permute_even:
  "even j \<Longrightarrow>
     permute j = \<lparr>wl = scr2, wl_jp1 = scr1, wr = scr3, bl = scr5, bl_jp1 = scr4, br = scr6\<rparr>"
  by (simp add: permute_def cpp_rem_2)

lemma permute_odd:
  "odd j \<Longrightarrow>
     permute j = \<lparr>wl = scr1, wl_jp1 = scr2, wr = scr3, bl = scr4, bl_jp1 = scr5, br = scr6\<rparr>"
  by (simp add: permute_def cpp_rem_2)

lemma permute_next:
  "wl (permute (j + 1)) = wl_jp1 (permute j)" "bl (permute (j + 1)) = bl_jp1 (permute j)"
  by (cases "even j"; simp add: permute_even permute_odd)+

lemma permute_distinct:
  "wl (permute j) \<noteq> wl_jp1 (permute j)" "wl (permute j) \<noteq> wr (permute j)"
  "wl (permute j) \<noteq> bl_jp1 (permute j)" "wl (permute j) \<noteq> br (permute j)"
  "bl (permute j) \<noteq> wl_jp1 (permute j)" "bl (permute j) \<noteq> wr (permute j)"
  "bl (permute j) \<noteq> bl_jp1 (permute j)" "bl (permute j) \<noteq> br (permute j)"
  by (cases "even j"; simp add: permute_even permute_odd)+

lemma recon_call_other:
  "b \<noteq> ql \<Longrightarrow> b \<noteq> qr \<Longrightarrow> recon_call R m k j il iu q ql qr mem b = mem b"
  by (simp add: recon_call_def split: prod.splits)

lemma reconstruct_x2_left:
  "fst (reconstruct_x2 K rm m k j il iu w b (permute c) mem) (wl (permute c)) =
     mem (wl (permute c))"
  "fst (reconstruct_x2 K rm m k j il iu w b (permute c) mem) (bl (permute c)) =
     mem (bl (permute c))"
  by (cases rm; simp add: reconstruct_x2_def recon_call_other permute_distinct)+

lemma reconstruct_x3_left:
  "fst (reconstruct_x3 K rm m k j il iu w b (permute c) mem) (wl (permute c)) =
     mem (wl (permute c))"
  "fst (reconstruct_x3 K rm m k j il iu w b (permute c) mem) (bl (permute c)) =
     mem (bl (permute c))"
  by (cases rm; simp add: reconstruct_x3_def recon_call_other permute_distinct)+

lemma fst_x2_body:
  "fst (x2_body K this m k j s) =
     fst (reconstruct_x2 K (recon_method this) m k j (is' (mb_cells (pmy_pack this)) - 1)
            (ie (mb_cells (pmy_pack this)) + 1) (w0 this) (bcc0 this) (permute j) (fst s))"
  by (simp add: x2_body_def Let_def split: prod.splits)

lemma fst_x3_body:
  "fst (x3_body K this m j k s) =
     fst (reconstruct_x3 K (recon_method this) m k j (is' (mb_cells (pmy_pack this)) - 1)
            (ie (mb_cells (pmy_pack this)) + 1) (w0 this) (bcc0 this) (permute k) (fst s))"
  by (simp add: x3_body_def Let_def split: prod.splits)

lemma x2_body_keeps_left:
  "fst (x2_body K this m k j s) (wl (permute j)) = fst s (wl (permute j))"
  "fst (x2_body K this m k j s) (bl (permute j)) = fst s (bl (permute j))"
  by (simp_all add: fst_x2_body reconstruct_x2_left)

lemma x3_body_keeps_left:
  "fst (x3_body K this m j k s) (wl (permute k)) = fst s (wl (permute k))"
  "fst (x3_body K this m j k s) (bl (permute k)) = fst s (bl (permute k))"
  by (simp_all add: fst_x3_body reconstruct_x3_left)

lemma permute_distinct2:
  "wl_jp1 (permute j) \<noteq> wr (permute j)"
  "wl_jp1 (permute j) \<noteq> bl_jp1 (permute j)" "wl_jp1 (permute j) \<noteq> br (permute j)"
  "wr (permute j) \<noteq> bl_jp1 (permute j)" "wr (permute j) \<noteq> br (permute j)"
  "bl_jp1 (permute j) \<noteq> br (permute j)"
  by (cases "even j"; simp add: permute_even permute_odd)+

lemma recon_call_left:
  "ql \<noteq> qr \<Longrightarrow> recon_call R m k j il iu q ql qr mem ql = fst (R m k j il iu q (mem ql) (mem qr))"
  by (simp add: recon_call_def split: prod.splits)

lemma recon_call_right:
  "recon_call R m k j il iu q ql qr mem qr = snd (R m k j il iu q (mem ql) (mem qr))"
  by (simp add: recon_call_def split: prod.splits)

lemma reconstruct_x2_out:
  assumes "kernel_x2 K rm = Some R"
  shows "fst (reconstruct_x2 K rm m k j il iu w b (permute c) mem) (wl_jp1 (permute c)) =
      fst (R m k j il iu w (mem (wl_jp1 (permute c))) (mem (wr (permute c))))"
    "fst (reconstruct_x2 K rm m k j il iu w b (permute c) mem) (wr (permute c)) =
      snd (R m k j il iu w (mem (wl_jp1 (permute c))) (mem (wr (permute c))))"
    "fst (reconstruct_x2 K rm m k j il iu w b (permute c) mem) (bl_jp1 (permute c)) =
      fst (R m k j il iu b (mem (bl_jp1 (permute c))) (mem (br (permute c))))"
    "fst (reconstruct_x2 K rm m k j il iu w b (permute c) mem) (br (permute c)) =
      snd (R m k j il iu b (mem (bl_jp1 (permute c))) (mem (br (permute c))))"
proof -
  have r: "fst (reconstruct_x2 K rm m k j il iu w b (permute c) mem) =
      recon_call R m k j il iu b (bl_jp1 (permute c)) (br (permute c))
        (recon_call R m k j il iu w (wl_jp1 (permute c)) (wr (permute c)) mem)"
    using assms by (cases rm) (simp_all add: kernel_x2_def reconstruct_x2_def)
  show "fst (reconstruct_x2 K rm m k j il iu w b (permute c) mem) (wl_jp1 (permute c)) =
      fst (R m k j il iu w (mem (wl_jp1 (permute c))) (mem (wr (permute c))))"
    "fst (reconstruct_x2 K rm m k j il iu w b (permute c) mem) (wr (permute c)) =
      snd (R m k j il iu w (mem (wl_jp1 (permute c))) (mem (wr (permute c))))"
    "fst (reconstruct_x2 K rm m k j il iu w b (permute c) mem) (bl_jp1 (permute c)) =
      fst (R m k j il iu b (mem (bl_jp1 (permute c))) (mem (br (permute c))))"
    "fst (reconstruct_x2 K rm m k j il iu w b (permute c) mem) (br (permute c)) =
      snd (R m k j il iu b (mem (bl_jp1 (permute c))) (mem (br (permute c))))"
    unfolding r
    by (simp_all add: recon_call_other recon_call_left recon_call_right permute_distinct2
        permute_distinct2[symmetric])
qed

lemma reconstruct_x3_out:
  assumes "kernel_x3 K rm = Some R"
  shows "fst (reconstruct_x3 K rm m k j il iu w b (permute c) mem) (wl_jp1 (permute c)) =
      fst (R m k j il iu w (mem (wl_jp1 (permute c))) (mem (wr (permute c))))"
    "fst (reconstruct_x3 K rm m k j il iu w b (permute c) mem) (wr (permute c)) =
      snd (R m k j il iu w (mem (wl_jp1 (permute c))) (mem (wr (permute c))))"
    "fst (reconstruct_x3 K rm m k j il iu w b (permute c) mem) (bl_jp1 (permute c)) =
      fst (R m k j il iu b (mem (bl_jp1 (permute c))) (mem (br (permute c))))"
    "fst (reconstruct_x3 K rm m k j il iu w b (permute c) mem) (br (permute c)) =
      snd (R m k j il iu b (mem (bl_jp1 (permute c))) (mem (br (permute c))))"
proof -
  have r: "fst (reconstruct_x3 K rm m k j il iu w b (permute c) mem) =
      recon_call R m k j il iu b (bl_jp1 (permute c)) (br (permute c))
        (recon_call R m k j il iu w (wl_jp1 (permute c)) (wr (permute c)) mem)"
    using assms by (cases rm) (simp_all add: kernel_x3_def reconstruct_x3_def)
  show "fst (reconstruct_x3 K rm m k j il iu w b (permute c) mem) (wl_jp1 (permute c)) =
      fst (R m k j il iu w (mem (wl_jp1 (permute c))) (mem (wr (permute c))))"
    "fst (reconstruct_x3 K rm m k j il iu w b (permute c) mem) (wr (permute c)) =
      snd (R m k j il iu w (mem (wl_jp1 (permute c))) (mem (wr (permute c))))"
    "fst (reconstruct_x3 K rm m k j il iu w b (permute c) mem) (bl_jp1 (permute c)) =
      fst (R m k j il iu b (mem (bl_jp1 (permute c))) (mem (br (permute c))))"
    "fst (reconstruct_x3 K rm m k j il iu w b (permute c) mem) (br (permute c)) =
      snd (R m k j il iu b (mem (bl_jp1 (permute c))) (mem (br (permute c))))"
    unfolding r
    by (simp_all add: recon_call_other recon_call_left recon_call_right permute_distinct2
        permute_distinct2[symmetric])
qed

lemma reconstruct_x2_none:
  "kernel_x2 K rm = None \<Longrightarrow> fst (reconstruct_x2 K rm m k j il iu w b r mem) = mem"
  by (cases rm; simp add: kernel_x2_def reconstruct_x2_def)

lemma reconstruct_x3_none:
  "kernel_x3 K rm = None \<Longrightarrow> fst (reconstruct_x3 K rm m k j il iu w b r mem) = mem"
  by (cases rm; simp add: kernel_x3_def reconstruct_x3_def)


lemma x2_body_out:
  assumes "kernel_x2 K (recon_method this) = Some R"
  shows "fst (x2_body K this m k c s) (wl_jp1 (permute c)) =
      fst (R m k c (is' (mb_cells (pmy_pack this)) - 1) (ie (mb_cells (pmy_pack this)) + 1)
             (w0 this) (fst s (wl_jp1 (permute c))) (fst s (wr (permute c))))"
    "fst (x2_body K this m k c s) (wr (permute c)) =
      snd (R m k c (is' (mb_cells (pmy_pack this)) - 1) (ie (mb_cells (pmy_pack this)) + 1)
             (w0 this) (fst s (wl_jp1 (permute c))) (fst s (wr (permute c))))"
    "fst (x2_body K this m k c s) (bl_jp1 (permute c)) =
      fst (R m k c (is' (mb_cells (pmy_pack this)) - 1) (ie (mb_cells (pmy_pack this)) + 1)
             (bcc0 this) (fst s (bl_jp1 (permute c))) (fst s (br (permute c))))"
    "fst (x2_body K this m k c s) (br (permute c)) =
      snd (R m k c (is' (mb_cells (pmy_pack this)) - 1) (ie (mb_cells (pmy_pack this)) + 1)
             (bcc0 this) (fst s (bl_jp1 (permute c))) (fst s (br (permute c))))"
  by (simp_all only: fst_x2_body reconstruct_x2_out[OF assms])

lemma x3_body_out:
  assumes "kernel_x3 K (recon_method this) = Some R"
  shows "fst (x3_body K this m j c s) (wl_jp1 (permute c)) =
      fst (R m c j (is' (mb_cells (pmy_pack this)) - 1) (ie (mb_cells (pmy_pack this)) + 1)
             (w0 this) (fst s (wl_jp1 (permute c))) (fst s (wr (permute c))))"
    "fst (x3_body K this m j c s) (wr (permute c)) =
      snd (R m c j (is' (mb_cells (pmy_pack this)) - 1) (ie (mb_cells (pmy_pack this)) + 1)
             (w0 this) (fst s (wl_jp1 (permute c))) (fst s (wr (permute c))))"
    "fst (x3_body K this m j c s) (bl_jp1 (permute c)) =
      fst (R m c j (is' (mb_cells (pmy_pack this)) - 1) (ie (mb_cells (pmy_pack this)) + 1)
             (bcc0 this) (fst s (bl_jp1 (permute c))) (fst s (br (permute c))))"
    "fst (x3_body K this m j c s) (br (permute c)) =
      snd (R m c j (is' (mb_cells (pmy_pack this)) - 1) (ie (mb_cells (pmy_pack this)) + 1)
             (bcc0 this) (fst s (bl_jp1 (permute c))) (fst s (br (permute c))))"
  by (simp_all only: fst_x3_body reconstruct_x3_out[OF assms])

lemma x2_body_solve:
  assumes "js (mb_cells (pmy_pack this)) - 1 \<le> c"
  shows "snd (x2_body K this m k (c + 1) s1) =
     rsolver_switch K (rsolver_method this) (eos_data this) m k (c + 1)
       (is' (mb_cells (pmy_pack this)) - 1) (ie (mb_cells (pmy_pack this)) + 1) IVY
       (fst s1 (wl_jp1 (permute c))) (fst (x2_body K this m k (c + 1) s1) (wr (permute (c + 1))))
       (fst s1 (bl_jp1 (permute c))) (fst (x2_body K this m k (c + 1) s1) (br (permute (c + 1))))
       (x2f (b0 this))
       ((snd s1)\<lparr>trace := trace (snd s1) @
          recon_events (recon_method this) 2 m k (c + 1)
            (is' (mb_cells (pmy_pack this)) - 1) (ie (mb_cells (pmy_pack this)) + 1)\<rparr>)"
proof -
  have g: "c + 1 > js (mb_cells (pmy_pack this)) - 1"
    using assms by simp
  have l: "fst (x2_body K this m k (c + 1) s1) (wl (permute (c + 1))) = fst s1 (wl_jp1 (permute c))"
    "fst (x2_body K this m k (c + 1) s1) (bl (permute (c + 1))) = fst s1 (bl_jp1 (permute c))"
    using x2_body_keeps_left[of K this m k "c + 1" s1] by (simp_all only: permute_next)
  show ?thesis
    by (subst snd_x2_body) (simp only: Let_def g if_True l)
qed

lemma x3_body_solve:
  assumes "ks (mb_cells (pmy_pack this)) - 1 \<le> c"
  shows "snd (x3_body K this m j (c + 1) s1) =
     rsolver_switch K (rsolver_method this) (eos_data this) m (c + 1) j
       (is' (mb_cells (pmy_pack this)) - 1) (ie (mb_cells (pmy_pack this)) + 1) IVZ
       (fst s1 (wl_jp1 (permute c))) (fst (x3_body K this m j (c + 1) s1) (wr (permute (c + 1))))
       (fst s1 (bl_jp1 (permute c))) (fst (x3_body K this m j (c + 1) s1) (br (permute (c + 1))))
       (x3f (b0 this))
       ((snd s1)\<lparr>trace := trace (snd s1) @
          recon_events (recon_method this) 3 m (c + 1) j
            (is' (mb_cells (pmy_pack this)) - 1) (ie (mb_cells (pmy_pack this)) + 1)\<rparr>)"
proof -
  have g: "c + 1 > ks (mb_cells (pmy_pack this)) - 1"
    using assms by simp
  have l: "fst (x3_body K this m j (c + 1) s1) (wl (permute (c + 1))) = fst s1 (wl_jp1 (permute c))"
    "fst (x3_body K this m j (c + 1) s1) (bl (permute (c + 1))) = fst s1 (bl_jp1 (permute c))"
    using x3_body_keeps_left[of K this m j "c + 1" s1] by (simp_all only: permute_next)
  show ?thesis
    by (subst snd_x3_body) (simp only: Let_def g if_True l)
qed

text \<open>
  C1. In the sweeps of directions 2 and 3 the roles of the buffers follow the parity of
  the loop counter, and the buffer that takes the one-step-ahead left state at a step
  (\<^verbatim>\<open>wl_jp1\<close>, \<^verbatim>\<open>bl_jp1\<close>) is the buffer read as the left input (\<^verbatim>\<open>wl\<close>, \<^verbatim>\<open>bl\<close>) at
  the next step. The loop runs step \<open>c + 1\<close> on the state \<open>s1\<close> that step \<open>c\<close> left. With
  a recognised method, whose kernel is \<open>R\<close>, step \<open>c\<close> leaves in \<^verbatim>\<open>wl_jp1\<close> and \<^verbatim>\<open>bl_jp1\<close>
  the left states that \<open>R\<close> returns for the line \<open>c\<close> of \<^verbatim>\<open>w0\<close> and of \<^verbatim>\<open>bcc0\<close>, and step
  \<open>c + 1\<close> leaves in \<^verbatim>\<open>wr\<close> and \<^verbatim>\<open>br\<close> the right states that \<open>R\<close> returns for the line
  \<open>c + 1\<close>. Step \<open>c + 1\<close> does not write its \<^verbatim>\<open>wl\<close> and \<^verbatim>\<open>bl\<close>: after its
  reconstruction they hold what step \<open>c\<close> left in \<^verbatim>\<open>wl_jp1\<close> and \<^verbatim>\<open>bl_jp1\<close>, and from the
  first counter of the loop on, the solver switch of step \<open>c + 1\<close> is run on exactly
  these left states and the right states of step \<open>c + 1\<close>. This holds for every counter
  \<open>c\<close>, every scratch contents and all kernels, in direction 2 (team \<open>(m, k)\<close>, counter
  \<open>j = c\<close>) and in direction 3 (team \<open>(m, j)\<close>, counter \<open>k = c\<close>).
\<close>

theorem C1_ping_pong_buffers:
  "wl (permute c) = (if even c then scr2 else scr1) \<and>
   wl_jp1 (permute c) = (if even c then scr1 else scr2) \<and>
   bl (permute c) = (if even c then scr5 else scr4) \<and>
   bl_jp1 (permute c) = (if even c then scr4 else scr5) \<and>
   wl (permute (c + 1)) = wl_jp1 (permute c) \<and>
   bl (permute (c + 1)) = bl_jp1 (permute c) \<and>
   (c \<le> je (mb_cells (pmy_pack this)) + 1 \<longrightarrow>
      x2_loop K this m k c s = x2_loop K this m k (c + 1) (x2_body K this m k c s)) \<and>
   (c \<le> ke (mb_cells (pmy_pack this)) + 1 \<longrightarrow>
      x3_loop K this m j c s = x3_loop K this m j (c + 1) (x3_body K this m j c s)) \<and>
   (let cs = mb_cells (pmy_pack this); il = is' cs - 1; iu = ie cs + 1;
        s1 = x2_body K this m k c s; s2 = x2_body K this m k (c + 1) s1
    in (kernel_x2 K (recon_method this) = Some R2 \<longrightarrow>
          fst s1 (wl_jp1 (permute c)) =
            fst (R2 m k c il iu (w0 this) (fst s (wl_jp1 (permute c))) (fst s (wr (permute c)))) \<and>
          fst s1 (bl_jp1 (permute c)) =
            fst (R2 m k c il iu (bcc0 this) (fst s (bl_jp1 (permute c)))
                   (fst s (br (permute c)))) \<and>
          fst s2 (wr (permute (c + 1))) =
            snd (R2 m k (c + 1) il iu (w0 this) (fst s1 (wl_jp1 (permute (c + 1))))
                   (fst s1 (wr (permute (c + 1))))) \<and>
          fst s2 (br (permute (c + 1))) =
            snd (R2 m k (c + 1) il iu (bcc0 this) (fst s1 (bl_jp1 (permute (c + 1))))
                   (fst s1 (br (permute (c + 1)))))) \<and>
       fst s2 (wl (permute (c + 1))) = fst s1 (wl_jp1 (permute c)) \<and>
       fst s2 (bl (permute (c + 1))) = fst s1 (bl_jp1 (permute c)) \<and>
       (js cs - 1 \<le> c \<longrightarrow>
          snd s2 =
            rsolver_switch K (rsolver_method this) (eos_data this) m k (c + 1) il iu IVY
              (fst s1 (wl_jp1 (permute c))) (fst s2 (wr (permute (c + 1))))
              (fst s1 (bl_jp1 (permute c))) (fst s2 (br (permute (c + 1))))
              (x2f (b0 this))
              ((snd s1)\<lparr>trace := trace (snd s1) @
                 recon_events (recon_method this) 2 m k (c + 1) il iu\<rparr>))) \<and>
   (let cs = mb_cells (pmy_pack this); il = is' cs - 1; iu = ie cs + 1;
        s1 = x3_body K this m j c s; s2 = x3_body K this m j (c + 1) s1
    in (kernel_x3 K (recon_method this) = Some R3 \<longrightarrow>
          fst s1 (wl_jp1 (permute c)) =
            fst (R3 m c j il iu (w0 this) (fst s (wl_jp1 (permute c))) (fst s (wr (permute c)))) \<and>
          fst s1 (bl_jp1 (permute c)) =
            fst (R3 m c j il iu (bcc0 this) (fst s (bl_jp1 (permute c)))
                   (fst s (br (permute c)))) \<and>
          fst s2 (wr (permute (c + 1))) =
            snd (R3 m (c + 1) j il iu (w0 this) (fst s1 (wl_jp1 (permute (c + 1))))
                   (fst s1 (wr (permute (c + 1))))) \<and>
          fst s2 (br (permute (c + 1))) =
            snd (R3 m (c + 1) j il iu (bcc0 this) (fst s1 (bl_jp1 (permute (c + 1))))
                   (fst s1 (br (permute (c + 1)))))) \<and>
       fst s2 (wl (permute (c + 1))) = fst s1 (wl_jp1 (permute c)) \<and>
       fst s2 (bl (permute (c + 1))) = fst s1 (bl_jp1 (permute c)) \<and>
       (ks cs - 1 \<le> c \<longrightarrow>
          snd s2 =
            rsolver_switch K (rsolver_method this) (eos_data this) m (c + 1) j il iu IVZ
              (fst s1 (wl_jp1 (permute c))) (fst s2 (wr (permute (c + 1))))
              (fst s1 (bl_jp1 (permute c))) (fst s2 (br (permute (c + 1))))
              (x3f (b0 this))
              ((snd s1)\<lparr>trace := trace (snd s1) @
                 recon_events (recon_method this) 3 m (c + 1) j il iu\<rparr>)))"
proof -
  have roles: "wl (permute c) = (if even c then scr2 else scr1)"
    "wl_jp1 (permute c) = (if even c then scr1 else scr2)"
    "bl (permute c) = (if even c then scr5 else scr4)"
    "bl_jp1 (permute c) = (if even c then scr4 else scr5)"
    by (cases "even c"; simp add: permute_even permute_odd)+
  have loops: "c \<le> je (mb_cells (pmy_pack this)) + 1 \<longrightarrow>
      x2_loop K this m k c s = x2_loop K this m k (c + 1) (x2_body K this m k c s)"
    "c \<le> ke (mb_cells (pmy_pack this)) + 1 \<longrightarrow>
      x3_loop K this m j c s = x3_loop K this m j (c + 1) (x3_body K this m j c s)"
    by (simp_all add: x2_loop.simps[of K this m k c] x3_loop.simps[of K this m j c])
  have keep: "fst (x2_body K this m k (c + 1) s') (wl (permute (c + 1))) =
      fst s' (wl_jp1 (permute c))"
    "fst (x2_body K this m k (c + 1) s') (bl (permute (c + 1))) = fst s' (bl_jp1 (permute c))"
    "fst (x3_body K this m j (c + 1) s'') (wl (permute (c + 1))) =
      fst s'' (wl_jp1 (permute c))"
    "fst (x3_body K this m j (c + 1) s'') (bl (permute (c + 1))) =
      fst s'' (bl_jp1 (permute c))" for s' s''
    using x2_body_keeps_left[of K this m k "c + 1" s'] x3_body_keeps_left[of K this m j "c + 1" s'']
    by (simp_all only: permute_next)
  have dir2: "(let cs = mb_cells (pmy_pack this); il = is' cs - 1; iu = ie cs + 1;
            s1 = x2_body K this m k c s; s2 = x2_body K this m k (c + 1) s1
        in (kernel_x2 K (recon_method this) = Some R2 \<longrightarrow>
              fst s1 (wl_jp1 (permute c)) =
                fst (R2 m k c il iu (w0 this) (fst s (wl_jp1 (permute c))) (fst s (wr (permute c)))) \<and>
              fst s1 (bl_jp1 (permute c)) =
                fst (R2 m k c il iu (bcc0 this) (fst s (bl_jp1 (permute c)))
                       (fst s (br (permute c)))) \<and>
              fst s2 (wr (permute (c + 1))) =
                snd (R2 m k (c + 1) il iu (w0 this) (fst s1 (wl_jp1 (permute (c + 1))))
                       (fst s1 (wr (permute (c + 1))))) \<and>
              fst s2 (br (permute (c + 1))) =
                snd (R2 m k (c + 1) il iu (bcc0 this) (fst s1 (bl_jp1 (permute (c + 1))))
                       (fst s1 (br (permute (c + 1)))))) \<and>
           fst s2 (wl (permute (c + 1))) = fst s1 (wl_jp1 (permute c)) \<and>
           fst s2 (bl (permute (c + 1))) = fst s1 (bl_jp1 (permute c)) \<and>
           (js cs - 1 \<le> c \<longrightarrow>
              snd s2 =
                rsolver_switch K (rsolver_method this) (eos_data this) m k (c + 1) il iu IVY
                  (fst s1 (wl_jp1 (permute c))) (fst s2 (wr (permute (c + 1))))
                  (fst s1 (bl_jp1 (permute c))) (fst s2 (br (permute (c + 1))))
                  (x2f (b0 this))
                  ((snd s1)\<lparr>trace := trace (snd s1) @
                     recon_events (recon_method this) 2 m k (c + 1) il iu\<rparr>)))"
    unfolding Let_def by (intro conjI impI) (simp_all only: keep x2_body_out x2_body_solve)
  have dir3: "(let cs = mb_cells (pmy_pack this); il = is' cs - 1; iu = ie cs + 1;
            s1 = x3_body K this m j c s; s2 = x3_body K this m j (c + 1) s1
        in (kernel_x3 K (recon_method this) = Some R3 \<longrightarrow>
              fst s1 (wl_jp1 (permute c)) =
                fst (R3 m c j il iu (w0 this) (fst s (wl_jp1 (permute c))) (fst s (wr (permute c)))) \<and>
              fst s1 (bl_jp1 (permute c)) =
                fst (R3 m c j il iu (bcc0 this) (fst s (bl_jp1 (permute c)))
                       (fst s (br (permute c)))) \<and>
              fst s2 (wr (permute (c + 1))) =
                snd (R3 m (c + 1) j il iu (w0 this) (fst s1 (wl_jp1 (permute (c + 1))))
                       (fst s1 (wr (permute (c + 1))))) \<and>
              fst s2 (br (permute (c + 1))) =
                snd (R3 m (c + 1) j il iu (bcc0 this) (fst s1 (bl_jp1 (permute (c + 1))))
                       (fst s1 (br (permute (c + 1)))))) \<and>
           fst s2 (wl (permute (c + 1))) = fst s1 (wl_jp1 (permute c)) \<and>
           fst s2 (bl (permute (c + 1))) = fst s1 (bl_jp1 (permute c)) \<and>
           (ks cs - 1 \<le> c \<longrightarrow>
              snd s2 =
                rsolver_switch K (rsolver_method this) (eos_data this) m (c + 1) j il iu IVZ
                  (fst s1 (wl_jp1 (permute c))) (fst s2 (wr (permute (c + 1))))
                  (fst s1 (bl_jp1 (permute c))) (fst s2 (br (permute (c + 1))))
                  (x3f (b0 this))
                  ((snd s1)\<lparr>trace := trace (snd s1) @
                     recon_events (recon_method this) 3 m (c + 1) j il iu\<rparr>)))"
    unfolding Let_def by (intro conjI impI) (simp_all only: keep x3_body_out x3_body_solve)
  show ?thesis
    by (intro conjI roles permute_next loops dir2 dir3)
qed

text \<open>
  The theorem on the labelling kernels, at the first two steps of both loops: the left
  states that the solver of the second step is given carry the label of the first step,
  the right states the label of the second.
\<close>

theorem C1_ping_pong_buffers_witness:
  "kernel_x2 label_kernels (recon_method label_mhd) = Some label_recon \<and>
   kernel_x3 label_kernels (recon_method label_mhd) = Some label_recon \<and>
   1 \<le> je (mb_cells (pmy_pack label_mhd)) + 1 \<and>
   1 \<le> ke (mb_cells (pmy_pack label_mhd)) + 1 \<and>
   js (mb_cells (pmy_pack label_mhd)) - 1 \<le> 1 \<and>
   ks (mb_cells (pmy_pack label_mhd)) - 1 \<le> 1 \<and>
   wl_jp1 (permute 1) = scr2 \<and> wl (permute 2) = scr2 \<and>
   bl_jp1 (permute 1) = scr5 \<and> bl (permute 2) = scr5 \<and>
   (let s = (\<lambda>b. None, \<lparr>flx = [], emf = (), trace = []\<rparr>);
        s1 = x2_body label_kernels label_mhd 0 2 1 s;
        s2 = x2_body label_kernels label_mhd 0 2 2 s1
    in x2_loop label_kernels label_mhd 0 2 1 s = x2_loop label_kernels label_mhd 0 2 2 s1 \<and>
       fst s1 scr2 = Some (W0, left_state, 0, 2, 1) \<and>
       fst s1 scr5 = Some (BCC0, left_state, 0, 2, 1) \<and>
       fst s2 scr2 = Some (W0, left_state, 0, 2, 1) \<and>
       fst s2 scr5 = Some (BCC0, left_state, 0, 2, 1) \<and>
       flx (snd s2) =
         [(Some (W0, left_state, 0, 2, 1), Some (W0, right_state, 0, 2, 2),
           Some (BCC0, left_state, 0, 2, 1), Some (BCC0, right_state, 0, 2, 2))]) \<and>
   (let s = (\<lambda>b. None, \<lparr>flx = [], emf = (), trace = []\<rparr>);
        s1 = x3_body label_kernels label_mhd 0 2 1 s;
        s2 = x3_body label_kernels label_mhd 0 2 2 s1
    in x3_loop label_kernels label_mhd 0 2 1 s = x3_loop label_kernels label_mhd 0 2 2 s1 \<and>
       fst s1 scr2 = Some (W0, left_state, 0, 1, 2) \<and>
       fst s1 scr5 = Some (BCC0, left_state, 0, 1, 2) \<and>
       fst s2 scr2 = Some (W0, left_state, 0, 1, 2) \<and>
       fst s2 scr5 = Some (BCC0, left_state, 0, 1, 2) \<and>
       flx (snd s2) =
         [(Some (W0, left_state, 0, 1, 2), Some (W0, right_state, 0, 2, 2),
           Some (BCC0, left_state, 0, 1, 2), Some (BCC0, right_state, 0, 2, 2))])"
proof -
  let ?s = "(\<lambda>b::scr. None::label,
     \<lparr>flx = []::(label \<times> label \<times> label \<times> label) list, emf = (), trace = []\<rparr>)"
  let ?a1 = "x2_body label_kernels label_mhd 0 2 1 ?s"
  let ?a2 = "x2_body label_kernels label_mhd 0 2 (1 + 1) ?a1"
  let ?b1 = "x3_body label_kernels label_mhd 0 2 1 ?s"
  let ?b2 = "x3_body label_kernels label_mhd 0 2 (1 + 1) ?b1"
  have h: "kernel_x2 label_kernels (recon_method label_mhd) = Some label_recon"
    "kernel_x3 label_kernels (recon_method label_mhd) = Some label_recon"
    "1 \<le> je (mb_cells (pmy_pack label_mhd)) + 1"
    "1 \<le> ke (mb_cells (pmy_pack label_mhd)) + 1"
    "js (mb_cells (pmy_pack label_mhd)) - 1 \<le> 1"
    "ks (mb_cells (pmy_pack label_mhd)) - 1 \<le> 1"
    by (simp_all add: kernel_x2_def kernel_x3_def label_kernels_def label_mhd_def)
  have p: "wl_jp1 (permute 1) = scr2" "wl (permute 2) = scr2"
    "bl_jp1 (permute 1) = scr5" "bl (permute 2) = scr5"
    "wr (permute 1) = scr3" "br (permute 1) = scr6"
    "wl_jp1 (permute 2) = scr1" "bl_jp1 (permute 2) = scr4"
    "wr (permute 2) = scr3" "br (permute 2) = scr6"
    by (simp_all add: permute_even permute_odd)
  note t = C1_ping_pong_buffers[where c = 1 and K = label_kernels and this = label_mhd and m = 0 and k = 2
      and j = 2 and s = ?s and ?R2.0 = label_recon and ?R3.0 = label_recon, unfolded Let_def]
  from t h have loops:
    "x2_loop label_kernels label_mhd 0 2 1 ?s = x2_loop label_kernels label_mhd 0 2 (1 + 1) ?a1"
    "x3_loop label_kernels label_mhd 0 2 1 ?s = x3_loop label_kernels label_mhd 0 2 (1 + 1) ?b1"
    by blast+
  have first: "flx (snd ?a1) = []" "flx (snd ?b1) = []"
    by (simp_all add: snd_x2_body snd_x3_body Let_def label_mhd_def)
  from t h have d2: "fst ?a1 scr2 = Some (W0, left_state, 0, 2, 1)"
    "fst ?a1 scr5 = Some (BCC0, left_state, 0, 2, 1)"
    "fst ?a2 scr2 = Some (W0, left_state, 0, 2, 1)"
    "fst ?a2 scr5 = Some (BCC0, left_state, 0, 2, 1)"
    "fst ?a2 scr3 = Some (W0, right_state, 0, 2, 2)"
    "fst ?a2 scr6 = Some (BCC0, right_state, 0, 2, 2)"
    by (simp_all add: p label_recon_def label_mhd_def)
  from t h have d3: "fst ?b1 scr2 = Some (W0, left_state, 0, 1, 2)"
    "fst ?b1 scr5 = Some (BCC0, left_state, 0, 1, 2)"
    "fst ?b2 scr2 = Some (W0, left_state, 0, 1, 2)"
    "fst ?b2 scr5 = Some (BCC0, left_state, 0, 1, 2)"
    "fst ?b2 scr3 = Some (W0, right_state, 0, 2, 2)"
    "fst ?b2 scr6 = Some (BCC0, right_state, 0, 2, 2)"
    by (simp_all add: p label_recon_def label_mhd_def)
  from t h have "snd ?a2 =
      rsolver_switch label_kernels (rsolver_method label_mhd) (eos_data label_mhd) 0 2 (1 + 1)
        (is' (mb_cells (pmy_pack label_mhd)) - 1) (ie (mb_cells (pmy_pack label_mhd)) + 1) IVY
        (fst ?a1 (wl_jp1 (permute 1))) (fst ?a2 (wr (permute (1 + 1))))
        (fst ?a1 (bl_jp1 (permute 1))) (fst ?a2 (br (permute (1 + 1))))
        (x2f (b0 label_mhd))
        ((snd ?a1)\<lparr>trace := trace (snd ?a1) @
           recon_events (recon_method label_mhd) 2 0 2 (1 + 1)
             (is' (mb_cells (pmy_pack label_mhd)) - 1)
             (ie (mb_cells (pmy_pack label_mhd)) + 1)\<rparr>)"
    by blast
  then have f2: "flx (snd ?a2) =
      [(Some (W0, left_state, 0, 2, 1), Some (W0, right_state, 0, 2, 2),
        Some (BCC0, left_state, 0, 2, 1), Some (BCC0, right_state, 0, 2, 2))]"
    using d2 first(1)
    by (simp add: p rsolver_switch_def label_kernels_def label_rsolver_def label_mhd_def)
  from t h have "snd ?b2 =
      rsolver_switch label_kernels (rsolver_method label_mhd) (eos_data label_mhd) 0 (1 + 1) 2
        (is' (mb_cells (pmy_pack label_mhd)) - 1) (ie (mb_cells (pmy_pack label_mhd)) + 1) IVZ
        (fst ?b1 (wl_jp1 (permute 1))) (fst ?b2 (wr (permute (1 + 1))))
        (fst ?b1 (bl_jp1 (permute 1))) (fst ?b2 (br (permute (1 + 1))))
        (x3f (b0 label_mhd))
        ((snd ?b1)\<lparr>trace := trace (snd ?b1) @
           recon_events (recon_method label_mhd) 3 0 (1 + 1) 2
             (is' (mb_cells (pmy_pack label_mhd)) - 1)
             (ie (mb_cells (pmy_pack label_mhd)) + 1)\<rparr>)"
    by blast
  then have f3: "flx (snd ?b2) =
      [(Some (W0, left_state, 0, 1, 2), Some (W0, right_state, 0, 2, 2),
        Some (BCC0, left_state, 0, 1, 2), Some (BCC0, right_state, 0, 2, 2))]"
    using d3 first(2)
    by (simp add: p rsolver_switch_def label_kernels_def label_rsolver_def label_mhd_def)
  show ?thesis
    unfolding Let_def using h p(1-4) loops d2(1-4) d3(1-4) f2 f3 by simp
qed

subsection \<open>The first iteration\<close>

text \<open>
  C2. The first iteration of the loop of a direction-2 team (\<open>j = js - 1\<close>) and of a
  direction-3 team (\<open>k = ks - 1\<close>) only reconstructs: it leaves the flux and the EMF
  array as they are and calls no solver. Every later iteration runs the solver switch
  on the buffers the reconstruction left. Over the whole loop the team calls, at every
  counter from \<open>js - 1\<close> to \<open>je + 1\<close> (\<open>ks - 1\<close> to \<open>ke + 1\<close>), the reconstruction, and
  at every counter but the first the solver switch after it.
\<close>

theorem C2_first_iteration_primes:
  "snd (x2_body K this m k (js (mb_cells (pmy_pack this)) - 1) s) =
     (snd s)\<lparr>trace := trace (snd s) @
        recon_events (recon_method this) 2 m k (js (mb_cells (pmy_pack this)) - 1)
          (is' (mb_cells (pmy_pack this)) - 1) (ie (mb_cells (pmy_pack this)) + 1)\<rparr> \<and>
   snd (x3_body K this m j (ks (mb_cells (pmy_pack this)) - 1) s) =
     (snd s)\<lparr>trace := trace (snd s) @
        recon_events (recon_method this) 3 m (ks (mb_cells (pmy_pack this)) - 1) j
          (is' (mb_cells (pmy_pack this)) - 1) (ie (mb_cells (pmy_pack this)) + 1)\<rparr> \<and>
   (js (mb_cells (pmy_pack this)) - 1 < jj \<longrightarrow>
      snd (x2_body K this m k jj s) =
        rsolver_switch K (rsolver_method this) (eos_data this) m k jj
          (is' (mb_cells (pmy_pack this)) - 1) (ie (mb_cells (pmy_pack this)) + 1) IVY
          (fst (x2_body K this m k jj s) (wl (permute jj)))
          (fst (x2_body K this m k jj s) (wr (permute jj)))
          (fst (x2_body K this m k jj s) (bl (permute jj)))
          (fst (x2_body K this m k jj s) (br (permute jj)))
          (x2f (b0 this))
          ((snd s)\<lparr>trace := trace (snd s) @
             recon_events (recon_method this) 2 m k jj
               (is' (mb_cells (pmy_pack this)) - 1) (ie (mb_cells (pmy_pack this)) + 1)\<rparr>)) \<and>
   (ks (mb_cells (pmy_pack this)) - 1 < kk \<longrightarrow>
      snd (x3_body K this m j kk s) =
        rsolver_switch K (rsolver_method this) (eos_data this) m kk j
          (is' (mb_cells (pmy_pack this)) - 1) (ie (mb_cells (pmy_pack this)) + 1) IVZ
          (fst (x3_body K this m j kk s) (wl (permute kk)))
          (fst (x3_body K this m j kk s) (wr (permute kk)))
          (fst (x3_body K this m j kk s) (bl (permute kk)))
          (fst (x3_body K this m j kk s) (br (permute kk)))
          (x3f (b0 this))
          ((snd s)\<lparr>trace := trace (snd s) @
             recon_events (recon_method this) 3 m kk j
               (is' (mb_cells (pmy_pack this)) - 1) (ie (mb_cells (pmy_pack this)) + 1)\<rparr>)) \<and>
   trace (x2_unit K this m k st) =
     trace st @ concat (map (x2_events this m k)
       [js (mb_cells (pmy_pack this)) - 1..je (mb_cells (pmy_pack this)) + 1]) \<and>
   trace (x3_unit K this m j st) =
     trace st @ concat (map (x3_events this m j)
       [ks (mb_cells (pmy_pack this)) - 1..ke (mb_cells (pmy_pack this)) + 1])"
proof (intro conjI impI)
  show "trace (x2_unit K this m k st) =
     trace st @ concat (map (x2_events this m k)
       [js (mb_cells (pmy_pack this)) - 1..je (mb_cells (pmy_pack this)) + 1])"
    by (rule trace_x2_unit)
  show "trace (x3_unit K this m j st) =
     trace st @ concat (map (x3_events this m j)
       [ks (mb_cells (pmy_pack this)) - 1..ke (mb_cells (pmy_pack this)) + 1])"
    by (rule trace_x3_unit)
qed (simp_all add: snd_x2_body snd_x3_body Let_def)

theorem C2_first_iteration_primes_witness:
  "js (mb_cells (pmy_pack example_mhd)) - 1 < 2 \<and>
   snd (x2_body footprint_kernels example_mhd 0 2 1
          (\<lambda>b. {}, \<lparr>flx = {}, emf = {}, trace = []\<rparr>)) =
     \<lparr>flx = {}, emf = {},
      trace = [Recon plm 2 W0 0 2 1 1 4, Recon plm 2 BCC0 0 2 1 1 4]\<rparr> \<and>
   snd (x2_body footprint_kernels example_mhd 0 2 2
          (\<lambda>b. {}, \<lparr>flx = {}, emf = {}, trace = []\<rparr>)) =
     \<lparr>flx = {(0, 2, 2, 1), (0, 2, 2, 2), (0, 2, 2, 3), (0, 2, 2, 4)},
      emf = {(0, 2, 2, 1), (0, 2, 2, 2), (0, 2, 2, 3), (0, 2, 2, 4)},
      trace = [Recon plm 2 W0 0 2 2 1 4, Recon plm 2 BCC0 0 2 2 1 4,
               Solve llf 0 2 2 1 4 IVY]\<rparr>"
proof -
  let ?s = "(\<lambda>b::scr. {}::int set, \<lparr>flx = {}::face set, emf = {}::face set, trace = []\<rparr>)"
  have h: "js (mb_cells (pmy_pack example_mhd)) - 1 < 2"
    and js: "js (mb_cells (pmy_pack example_mhd)) - 1 = 1"
    by (simp_all add: example_mhd_def)
  note t = C2_first_iteration_primes[where K = footprint_kernels and this = example_mhd
      and m = 0 and k = 2 and s = ?s and jj = 2]
  from t have first: "snd (x2_body footprint_kernels example_mhd 0 2 1 ?s) =
      (snd ?s)\<lparr>trace := trace (snd ?s) @ recon_events (recon_method example_mhd) 2 0 2 1
         (is' (mb_cells (pmy_pack example_mhd)) - 1)
         (ie (mb_cells (pmy_pack example_mhd)) + 1)\<rparr>"
    unfolding js by (rule conjunct1)
  from t h have later: "snd (x2_body footprint_kernels example_mhd 0 2 2 ?s) =
      rsolver_switch footprint_kernels (rsolver_method example_mhd) (eos_data example_mhd)
        0 2 2 (is' (mb_cells (pmy_pack example_mhd)) - 1)
        (ie (mb_cells (pmy_pack example_mhd)) + 1) IVY
        (fst (x2_body footprint_kernels example_mhd 0 2 2 ?s) (wl (permute 2)))
        (fst (x2_body footprint_kernels example_mhd 0 2 2 ?s) (wr (permute 2)))
        (fst (x2_body footprint_kernels example_mhd 0 2 2 ?s) (bl (permute 2)))
        (fst (x2_body footprint_kernels example_mhd 0 2 2 ?s) (br (permute 2)))
        (x2f (b0 example_mhd))
        ((snd ?s)\<lparr>trace := trace (snd ?s) @ recon_events (recon_method example_mhd) 2 0 2 2
           (is' (mb_cells (pmy_pack example_mhd)) - 1)
           (ie (mb_cells (pmy_pack example_mhd)) + 1)\<rparr>)"
    by blast
  have r1: "(snd ?s)\<lparr>trace := trace (snd ?s) @ recon_events (recon_method example_mhd) 2 0 2 1
         (is' (mb_cells (pmy_pack example_mhd)) - 1)
         (ie (mb_cells (pmy_pack example_mhd)) + 1)\<rparr> =
      \<lparr>flx = {}, emf = {},
       trace = [Recon plm 2 W0 0 2 1 1 4, Recon plm 2 BCC0 0 2 1 1 4]\<rparr>"
    by (simp add: example_mhd_def recon_events_def)
  have r2: "rsolver_switch footprint_kernels (rsolver_method example_mhd) (eos_data example_mhd)
        0 2 2 (is' (mb_cells (pmy_pack example_mhd)) - 1)
        (ie (mb_cells (pmy_pack example_mhd)) + 1) IVY
        (fst (x2_body footprint_kernels example_mhd 0 2 2 ?s) (wl (permute 2)))
        (fst (x2_body footprint_kernels example_mhd 0 2 2 ?s) (wr (permute 2)))
        (fst (x2_body footprint_kernels example_mhd 0 2 2 ?s) (bl (permute 2)))
        (fst (x2_body footprint_kernels example_mhd 0 2 2 ?s) (br (permute 2)))
        (x2f (b0 example_mhd))
        ((snd ?s)\<lparr>trace := trace (snd ?s) @ recon_events (recon_method example_mhd) 2 0 2 2
           (is' (mb_cells (pmy_pack example_mhd)) - 1)
           (ie (mb_cells (pmy_pack example_mhd)) + 1)\<rparr>) =
      \<lparr>flx = {(0, 2, 2, 1), (0, 2, 2, 2), (0, 2, 2, 3), (0, 2, 2, 4)},
       emf = {(0, 2, 2, 1), (0, 2, 2, 2), (0, 2, 2, 3), (0, 2, 2, 4)},
       trace = [Recon plm 2 W0 0 2 2 1 4, Recon plm 2 BCC0 0 2 2 1 4,
                Solve llf 0 2 2 1 4 IVY]\<rparr>"
    by (auto simp add: example_mhd_def footprint_kernels_def footprint_rsolver_def
        rsolver_switch_def recon_events_def)
  show ?thesis
    using h first later unfolding r1 r2 by blast
qed

subsection \<open>Unused directions\<close>

lemma MHDCalcFlux_1d:
  "\<not> nx2gt1 (pmesh (pmy_pack this)) \<Longrightarrow>
     MHDCalcFlux K v this tr =
       (let s1 = x1_sweep K this
                   (scr_size K (calc_nvars this v)
                      (nx1 (mb_cells (pmy_pack this)) + 2 * ng (mb_cells (pmy_pack this))) 2)
                   \<lparr>flx = flux1 this, emf = emf_x1 this, trace = tr\<rparr>
        in (complete, this\<lparr>flux1 := flx s1, emf_x1 := emf s1\<rparr>, trace s1))"
  by (simp add: MHDCalcFlux_def Let_def)

lemma MHDCalcFlux_frame3:
  "\<not> nx3gt1 (pmesh (pmy_pack this)) \<Longrightarrow>
     flux3 (fst (snd (MHDCalcFlux K v this tr))) = flux3 this \<and>
     emf_x3 (fst (snd (MHDCalcFlux K v this tr))) = emf_x3 this"
  by (simp add: MHDCalcFlux_def Let_def)

text \<open>
  C3. On a mesh with no extent in the second dimension \<^verbatim>\<open>MHDCalcFlux\<close> returns what the
  direction-1 sweep left: the status is \<open>complete\<close>, \<^verbatim>\<open>flux2\<close>, \<^verbatim>\<open>emf_x2\<close>,
  \<^verbatim>\<open>flux3\<close>, \<^verbatim>\<open>emf_x3\<close> are as they were, and the only dispatch, hence the only scratch
  request, is that of direction 1. On a mesh with no extent in the third dimension
  \<^verbatim>\<open>flux3\<close> and \<^verbatim>\<open>emf_x3\<close> are as they were and there is no dispatch of direction 3.
\<close>

theorem C3_unused_directions_skipped:
  "(\<not> nx2gt1 (pmesh (pmy_pack this)) \<longrightarrow>
      MHDCalcFlux K v this tr =
        (let s1 = x1_sweep K this
                    (scr_size K (calc_nvars this v)
                       (nx1 (mb_cells (pmy_pack this)) + 2 * ng (mb_cells (pmy_pack this))) 2)
                    \<lparr>flx = flux1 this, emf = emf_x1 this, trace = tr\<rparr>
         in (complete, this\<lparr>flux1 := flx s1, emf_x1 := emf s1\<rparr>, trace s1)) \<and>
      flux2 (fst (snd (MHDCalcFlux K v this tr))) = flux2 this \<and>
      emf_x2 (fst (snd (MHDCalcFlux K v this tr))) = emf_x2 this \<and>
      flux3 (fst (snd (MHDCalcFlux K v this tr))) = flux3 this \<and>
      emf_x3 (fst (snd (MHDCalcFlux K v this tr))) = emf_x3 this \<and>
      filter is_Launch (snd (snd (MHDCalcFlux K v this tr))) =
        filter is_Launch tr @
        [Launch ''mhd_flux_x1''
           (scr_size K (calc_nvars this v) (nx1 (mb_cells (pmy_pack this)) + 2 * ng (mb_cells (pmy_pack this))) 2)]) \<and>
   (\<not> nx3gt1 (pmesh (pmy_pack this)) \<longrightarrow>
      fst (MHDCalcFlux K v this tr) = complete \<and>
      flux3 (fst (snd (MHDCalcFlux K v this tr))) = flux3 this \<and>
      emf_x3 (fst (snd (MHDCalcFlux K v this tr))) = emf_x3 this \<and>
      filter is_Launch (snd (snd (MHDCalcFlux K v this tr))) =
        filter is_Launch tr @
        Launch ''mhd_flux_x1''
          (scr_size K (calc_nvars this v) (nx1 (mb_cells (pmy_pack this)) + 2 * ng (mb_cells (pmy_pack this))) 2) #
        (if nx2gt1 (pmesh (pmy_pack this))
         then [Launch ''mhd_flux2''
                 (scr_size K (calc_nvars this v)
                    (nx1 (mb_cells (pmy_pack this)) + 2 * ng (mb_cells (pmy_pack this))) 3)]
         else []))"
proof (intro conjI impI)
  assume a: "\<not> nx2gt1 (pmesh (pmy_pack this))"
  show "MHDCalcFlux K v this tr =
        (let s1 = x1_sweep K this
                    (scr_size K (calc_nvars this v)
                       (nx1 (mb_cells (pmy_pack this)) + 2 * ng (mb_cells (pmy_pack this))) 2)
                    \<lparr>flx = flux1 this, emf = emf_x1 this, trace = tr\<rparr>
         in (complete, this\<lparr>flux1 := flx s1, emf_x1 := emf s1\<rparr>, trace s1))"
    using a by (rule MHDCalcFlux_1d)
  show "flux2 (fst (snd (MHDCalcFlux K v this tr))) = flux2 this"
    "emf_x2 (fst (snd (MHDCalcFlux K v this tr))) = emf_x2 this"
    "flux3 (fst (snd (MHDCalcFlux K v this tr))) = flux3 this"
    "emf_x3 (fst (snd (MHDCalcFlux K v this tr))) = emf_x3 this"
    using a by (simp_all add: MHDCalcFlux_1d Let_def)
  show "filter is_Launch (snd (snd (MHDCalcFlux K v this tr))) =
        filter is_Launch tr @
        [Launch ''mhd_flux_x1''
           (scr_size K (calc_nvars this v) (nx1 (mb_cells (pmy_pack this)) + 2 * ng (mb_cells (pmy_pack this))) 2)]"
    using a by (simp add: launches_MHDCalcFlux)
next
  assume a: "\<not> nx3gt1 (pmesh (pmy_pack this))"
  show "fst (MHDCalcFlux K v this tr) = complete"
    by (simp add: MHDCalcFlux_def Let_def)
  show "flux3 (fst (snd (MHDCalcFlux K v this tr))) = flux3 this"
    "emf_x3 (fst (snd (MHDCalcFlux K v this tr))) = emf_x3 this"
    using a by (simp_all add: MHDCalcFlux_frame3)
  show "filter is_Launch (snd (snd (MHDCalcFlux K v this tr))) =
        filter is_Launch tr @
        Launch ''mhd_flux_x1''
          (scr_size K (calc_nvars this v) (nx1 (mb_cells (pmy_pack this)) + 2 * ng (mb_cells (pmy_pack this))) 2) #
        (if nx2gt1 (pmesh (pmy_pack this))
         then [Launch ''mhd_flux2''
                 (scr_size K (calc_nvars this v)
                    (nx1 (mb_cells (pmy_pack this)) + 2 * ng (mb_cells (pmy_pack this))) 3)]
         else [])"
    using a by (simp add: launches_MHDCalcFlux)
qed


lemmas example_defs =
  example_mhd_1d_def example_mhd_2d_def example_mhd_def footprint_kernels_def footprint_recon_def
  footprint_rsolver_def

theorem C3_unused_directions_skipped_witness:
  "\<not> nx2gt1 (pmesh (pmy_pack example_mhd_1d)) \<and>
   flux2 (fst (snd (MHDCalcFlux footprint_kernels 5 example_mhd_1d []))) = {} \<and>
   emf_x3 (fst (snd (MHDCalcFlux footprint_kernels 5 example_mhd_1d []))) = {} \<and>
   filter is_Launch (snd (snd (MHDCalcFlux footprint_kernels 5 example_mhd_1d []))) =
     [Launch ''mhd_flux_x1'' 768] \<and>
   \<not> nx3gt1 (pmesh (pmy_pack example_mhd_2d)) \<and>
   flux3 (fst (snd (MHDCalcFlux footprint_kernels 5 example_mhd_2d []))) = {} \<and>
   filter is_Launch
     (snd (snd (MHDCalcFlux footprint_kernels 5 example_mhd_2d []))) =
     [Launch ''mhd_flux_x1'' 768, Launch ''mhd_flux2'' 1152]"
proof -
  have h1: "\<not> nx2gt1 (pmesh (pmy_pack example_mhd_1d))"
    by (simp add: example_mhd_1d_def)
  have h2: "\<not> nx3gt1 (pmesh (pmy_pack example_mhd_2d))"
    by (simp add: example_mhd_2d_def)
  have v: "flux2 example_mhd_1d = {}" "emf_x3 example_mhd_1d = {}"
    "flux3 example_mhd_2d = {}" "nx2gt1 (pmesh (pmy_pack example_mhd_2d))"
    by (simp_all add: example_defs)
  have sz: "scr_size footprint_kernels (calc_nvars example_mhd_1d 5)
      (nx1 (mb_cells (pmy_pack example_mhd_1d)) + 2 * ng (mb_cells (pmy_pack example_mhd_1d))) 2 = 768"
    "scr_size footprint_kernels (calc_nvars example_mhd_2d 5)
      (nx1 (mb_cells (pmy_pack example_mhd_2d)) +
       2 * ng (mb_cells (pmy_pack example_mhd_2d))) 2 = 768"
    "scr_size footprint_kernels (calc_nvars example_mhd_2d 5)
      (nx1 (mb_cells (pmy_pack example_mhd_2d)) +
       2 * ng (mb_cells (pmy_pack example_mhd_2d))) 3 = 1152"
    by (simp_all add: example_defs scr_size_def calc_nvars_def)
  note a = C3_unused_directions_skipped[of example_mhd_1d footprint_kernels 5 "[]",
      THEN conjunct1, THEN mp, OF h1, THEN conjunct2]
  note b = C3_unused_directions_skipped[of example_mhd_2d
      footprint_kernels 5 "[]", THEN conjunct2, THEN mp, OF h2]
  show ?thesis
    using a b h1 h2 by (simp only: v sz) simp
qed

subsection \<open>Unrecognised selectors\<close>

lemma flx_emf_fold_inv:
  "(\<And>x s. flx (f x s) = flx s \<and> emf (f x s) = emf s) \<Longrightarrow>
     flx (fold f xs s) = flx s \<and> emf (fold f xs s) = emf s"
  by (induction xs arbitrary: s) simp_all

lemma x1_unit_unrecognized:
  "rsolver_method this = rsolver_unrecognized \<Longrightarrow>
     flx (x1_unit K this m k j st) = flx st \<and> emf (x1_unit K this m k j st) = emf st"
  by (simp add: x1_unit_def Let_def rsolver_switch_unrecognized split: prod.splits)

lemma x2_body_unrecognized:
  "rsolver_method this = rsolver_unrecognized \<Longrightarrow>
     flx (snd (x2_body K this m k j s)) = flx (snd s) \<and>
     emf (snd (x2_body K this m k j s)) = emf (snd s)"
  by (simp add: snd_x2_body Let_def rsolver_switch_unrecognized)

lemma x3_body_unrecognized:
  "rsolver_method this = rsolver_unrecognized \<Longrightarrow>
     flx (snd (x3_body K this m j k s)) = flx (snd s) \<and>
     emf (snd (x3_body K this m j k s)) = emf (snd s)"
  by (simp add: snd_x3_body Let_def rsolver_switch_unrecognized)

lemma flx_emf_snd_fold_inv:
  "(\<And>x s. flx (snd (f x s)) = flx (snd s) \<and> emf (snd (f x s)) = emf (snd s)) \<Longrightarrow>
     flx (snd (fold f xs s)) = flx (snd s) \<and> emf (snd (fold f xs s)) = emf (snd s)"
  by (induction xs arbitrary: s) simp_all

lemma x2_unit_unrecognized:
  "rsolver_method this = rsolver_unrecognized \<Longrightarrow>
     flx (x2_unit K this m k st) = flx st \<and> emf (x2_unit K this m k st) = emf st"
  unfolding x2_unit_def x2_loop_fold
  using flx_emf_snd_fold_inv[of "x2_body K this m k", OF x2_body_unrecognized] by simp

lemma x3_unit_unrecognized:
  "rsolver_method this = rsolver_unrecognized \<Longrightarrow>
     flx (x3_unit K this m j st) = flx st \<and> emf (x3_unit K this m j st) = emf st"
  unfolding x3_unit_def x3_loop_fold
  using flx_emf_snd_fold_inv[of "x3_body K this m j", OF x3_body_unrecognized] by simp

lemma x1_sweep_unrecognized:
  assumes "rsolver_method this = rsolver_unrecognized"
  shows "flx (x1_sweep K this sz st) = flx st \<and> emf (x1_sweep K this sz st) = emf st"
proof -
  have j: "flx (fold (x1_unit K this m k) js s) = flx s \<and>
      emf (fold (x1_unit K this m k) js s) = emf s" for m k js s
    by (rule flx_emf_fold_inv) (rule x1_unit_unrecognized[OF assms])
  have k: "flx (fold (\<lambda>k. fold (x1_unit K this m k) js) ks s) = flx s \<and>
      emf (fold (\<lambda>k. fold (x1_unit K this m k) js) ks s) = emf s" for m js ks s
    by (rule flx_emf_fold_inv) (rule j)
  have m: "flx (fold (\<lambda>m. fold (\<lambda>k. fold (x1_unit K this m k) js) ks) ms s) = flx s \<and>
      emf (fold (\<lambda>m. fold (\<lambda>k. fold (x1_unit K this m k) js) ks) ms s) = emf s" for js ks ms s
    by (rule flx_emf_fold_inv) (rule k)
  show ?thesis
    unfolding x1_sweep_def par_for_outer3_def Let_def using m by simp
qed

lemma par_for_outer2_inv:
  assumes "\<And>m k s. flx (body m k s) = flx s \<and> emf (body m k s) = emf s"
  shows "flx (par_for_outer2 name sz ml mu kl ku body st) = flx st \<and>
     emf (par_for_outer2 name sz ml mu kl ku body st) = emf st"
proof -
  have k: "flx (fold (body m) ks s) = flx s \<and> emf (fold (body m) ks s) = emf s" for m ks s
    by (rule flx_emf_fold_inv) (rule assms)
  have m: "flx (fold (\<lambda>m. fold (body m) ks) ms s) = flx s \<and>
      emf (fold (\<lambda>m. fold (body m) ks) ms s) = emf s" for ks ms s
    by (rule flx_emf_fold_inv) (rule k)
  show ?thesis
    unfolding par_for_outer2_def using m by simp
qed

lemma x2_sweep_unrecognized:
  "rsolver_method this = rsolver_unrecognized \<Longrightarrow>
     flx (x2_sweep K this sz st) = flx st \<and> emf (x2_sweep K this sz st) = emf st"
  unfolding x2_sweep_def Let_def
  by (rule par_for_outer2_inv) (rule x2_unit_unrecognized)

lemma x3_sweep_unrecognized:
  "rsolver_method this = rsolver_unrecognized \<Longrightarrow>
     flx (x3_sweep K this sz st) = flx st \<and> emf (x3_sweep K this sz st) = emf st"
  unfolding x3_sweep_def Let_def
  by (rule par_for_outer2_inv) (rule x3_unit_unrecognized)

lemma MHDCalcFlux_complete: "fst (MHDCalcFlux K v this tr) = complete"
  by (simp add: MHDCalcFlux_def Let_def)

text \<open>
  C4, as stated, fails: with an unrecognised reconstruction method and the LLF solver
  the reconstruction switch does nothing, but the solver is still called, on buffers
  that were never written, and writes \<^verbatim>\<open>flux1\<close>.
\<close>

theorem C4_counterexample:
  "recon_method (example_mhd_1d\<lparr>recon_method := recon_unrecognized\<rparr>) = recon_unrecognized \<and>
   flux1 (fst (snd (MHDCalcFlux footprint_kernels 5
                      (example_mhd_1d\<lparr>recon_method := recon_unrecognized\<rparr>) []))) \<noteq>
     flux1 (example_mhd_1d\<lparr>recon_method := recon_unrecognized\<rparr>)"
  by (simp add: example_defs MHDCalcFlux_def x1_sweep_def par_for_outer3_def x1_unit_def
      reconstruct_x1_def rsolver_switch_def upto_rec1 Let_def)

text \<open>
  C4, amended. With an unrecognised Riemann solver the \<^verbatim>\<open>default\<close> case does nothing:
  \<^verbatim>\<open>MHDCalcFlux\<close> returns \<open>complete\<close> and leaves the whole object, so the flux and EMF
  arrays of every direction, as it was. With an unrecognised reconstruction method
  the \<^verbatim>\<open>default\<close> case of the reconstruction switch calls no kernel and writes no
  scratch buffer, and \<^verbatim>\<open>MHDCalcFlux\<close> returns \<open>complete\<close>.
\<close>

theorem C4_default_cases:
  "(rsolver_method this = rsolver_unrecognized \<longrightarrow>
      fst (MHDCalcFlux K v this tr) = complete \<and>
      fst (snd (MHDCalcFlux K v this tr)) = this) \<and>
   (recon_method this = recon_unrecognized \<longrightarrow>
      fst (MHDCalcFlux K v this tr) = complete \<and>
      reconstruct_x1 K (recon_method this) m k j il iu w b =
        (((uninit K, uninit K), (uninit K, uninit K)), []) \<and>
      reconstruct_x2 K (recon_method this) m k j il iu w b r mem = (mem, []) \<and>
      reconstruct_x3 K (recon_method this) m k j il iu w b r mem = (mem, []))"
proof (intro conjI impI)
  assume a: "rsolver_method this = rsolver_unrecognized"
  show "fst (snd (MHDCalcFlux K v this tr)) = this"
    by (simp add: MHDCalcFlux_def Let_def x1_sweep_unrecognized[OF a]
        x2_sweep_unrecognized[OF a] x3_sweep_unrecognized[OF a])
next
  assume a: "recon_method this = recon_unrecognized"
  show "reconstruct_x1 K (recon_method this) m k j il iu w b =
      (((uninit K, uninit K), (uninit K, uninit K)), [])"
    "reconstruct_x2 K (recon_method this) m k j il iu w b r mem = (mem, [])"
    "reconstruct_x3 K (recon_method this) m k j il iu w b r mem = (mem, [])"
    using a by (simp_all add: reconstruct_x1_def reconstruct_x2_def reconstruct_x3_def)
qed (rule MHDCalcFlux_complete)+

theorem C4_default_cases_witness:
  "rsolver_method (example_mhd\<lparr>rsolver_method := rsolver_unrecognized\<rparr>) = rsolver_unrecognized \<and>
   fst (snd (MHDCalcFlux footprint_kernels 5
               (example_mhd\<lparr>rsolver_method := rsolver_unrecognized\<rparr>) [])) =
     example_mhd\<lparr>rsolver_method := rsolver_unrecognized\<rparr> \<and>
   recon_method (example_mhd\<lparr>recon_method := recon_unrecognized\<rparr>) = recon_unrecognized \<and>
   reconstruct_x2 footprint_kernels recon_unrecognized 0 2 2 1 4 () () (permute 2)
     (\<lambda>b. {}) = (\<lambda>b. {}, []) \<and>
   fst (MHDCalcFlux footprint_kernels 5
          (example_mhd\<lparr>recon_method := recon_unrecognized\<rparr>) []) = complete"
  using C4_default_cases[of "example_mhd\<lparr>rsolver_method := rsolver_unrecognized\<rparr>"
      footprint_kernels 5 "[]" 0 2 2 1 4 "()" "()" "permute 2" "\<lambda>b. {}"]
    C4_default_cases[of "example_mhd\<lparr>recon_method := recon_unrecognized\<rparr>"
      footprint_kernels 5 "[]" 0 2 2 1 4 "()" "()" "permute 2" "\<lambda>b. {}"]
  by (simp add: example_mhd_def)

subsection \<open>The number of variables and the scratch sizes\<close>

text \<open>
  C5. The claim is that \<^verbatim>\<open>nvars\<close> is the member \<^verbatim>\<open>nmhd\<close> plus \<^verbatim>\<open>nscalars\<close>. The
  code adds \<^verbatim>\<open>nscalars\<close> to the local \<^verbatim>\<open>nmhd\<close> of line 38, which is initialised from
  itself: with five MHD variables, no scalars and a local that happens to hold 0,
  \<^verbatim>\<open>nvars\<close> is 0 and not 5.
\<close>

theorem C5_nvars_from_uninitialised_local:
  "calc_nvars example_mhd 0 = 0 \<and> nmhd example_mhd + nscalars example_mhd = 5"
  by (simp add: calc_nvars_def example_mhd_def)

text \<open>
  C6. \<^verbatim>\<open>MHDCalcFlux\<close> makes one dispatch per direction it sweeps, each with one scratch
  request: the size of a buffer of \<^verbatim>\<open>nvars\<close> rows plus the size of a buffer of 3 rows,
  both of \<^verbatim>\<open>ncells1 = nx1 + 2 ng\<close> columns, times 2 in direction 1 and times 3 in
  directions 2 and 3.
\<close>

theorem C6_scratch_sizes:
  "filter is_Launch (snd (snd (MHDCalcFlux K v this tr))) =
     filter is_Launch tr @
     Launch ''mhd_flux_x1''
       ((shmem_size K (calc_nvars this v) (nx1 (mb_cells (pmy_pack this)) + 2 * ng (mb_cells (pmy_pack this))) +
         shmem_size K 3 (nx1 (mb_cells (pmy_pack this)) + 2 * ng (mb_cells (pmy_pack this)))) * 2) #
     (if nx2gt1 (pmesh (pmy_pack this))
      then Launch ''mhd_flux2''
             ((shmem_size K (calc_nvars this v) (nx1 (mb_cells (pmy_pack this)) + 2 * ng (mb_cells (pmy_pack this))) +
               shmem_size K 3 (nx1 (mb_cells (pmy_pack this)) + 2 * ng (mb_cells (pmy_pack this)))) * 3) #
           (if nx3gt1 (pmesh (pmy_pack this))
            then [Launch ''divflux_x3''
                    ((shmem_size K (calc_nvars this v)
                        (nx1 (mb_cells (pmy_pack this)) + 2 * ng (mb_cells (pmy_pack this))) +
                      shmem_size K 3 (nx1 (mb_cells (pmy_pack this)) + 2 * ng (mb_cells (pmy_pack this)))) * 3)]
            else [])
      else [])"
  using launches_MHDCalcFlux[of K v this tr] by (simp add: scr_size_def)

theorem C6_scratch_sizes_witness:
  "filter is_Launch (snd (snd (MHDCalcFlux footprint_kernels 5 example_mhd []))) =
     [Launch ''mhd_flux_x1'' 768, Launch ''mhd_flux2'' 1152, Launch ''divflux_x3'' 1152]"
  using C6_scratch_sizes[of footprint_kernels 5 example_mhd "[]"]
  by (simp add: example_defs calc_nvars_def)

subsection \<open>The direction-1 sweep\<close>

text \<open>
  C7, as stated, fails: the solver of direction 1 is not called over \<open>[is-1, ie+1]\<close>. On
  the line of two cells (\<open>is = 2\<close>, \<open>ie = 3\<close>) the reconstruction runs over \<open>[1, 4]\<close> and
  the solver over \<open>[2, 4]\<close>; nothing is written at face 1.
\<close>

theorem C7_counterexample:
  "is' (mb_cells (pmy_pack example_mhd_1d)) - 1 = 1 \<and> ie (mb_cells (pmy_pack example_mhd_1d)) + 1 = 4 \<and>
   x1_sweep footprint_kernels example_mhd_1d 768 \<lparr>flx = {}, emf = {}, trace = []\<rparr> =
     \<lparr>flx = {(0, 0, 0, 2), (0, 0, 0, 3), (0, 0, 0, 4)},
      emf = {(0, 0, 0, 2), (0, 0, 0, 3), (0, 0, 0, 4)},
      trace = [Launch ''mhd_flux_x1'' 768, Recon plm 1 W0 0 0 0 1 4,
               Recon plm 1 BCC0 0 0 0 1 4, Solve llf 0 0 0 2 4 IVX]\<rparr>"
  by (auto simp add: example_defs x1_sweep_def par_for_outer3_def x1_unit_def
      reconstruct_x1_def rsolver_switch_def upto_rec1 Let_def)

text \<open>
  C7, amended. The direction-1 sweep is one dispatch whose teams are the triples
  \<open>(m, k, j)\<close> with \<open>0 \<le> m \<le> nmb - 1\<close>, \<open>ks \<le> k \<le> ke\<close>, \<open>js \<le> j \<le> je\<close>. Each
  team calls the reconstruction once on each of \<^verbatim>\<open>w0\<close> and \<^verbatim>\<open>bcc0\<close>, over
  \<open>[is-1, ie+1]\<close>, and then the solver once, over \<open>[is, ie+1]\<close>.
\<close>

theorem C7_x1_sweep_calls:
  "trace (x1_sweep K this sz st) =
     trace st @ Launch ''mhd_flux_x1'' sz #
       concat (map (\<lambda>m. concat (map (\<lambda>k. concat (map (\<lambda>j.
           recon_events (recon_method this) 1 m k j
             (is' (mb_cells (pmy_pack this)) - 1) (ie (mb_cells (pmy_pack this)) + 1) @
           solve_events (rsolver_method this) m k j
             (is' (mb_cells (pmy_pack this))) (ie (mb_cells (pmy_pack this)) + 1) IVX)
         [js (mb_cells (pmy_pack this))..je (mb_cells (pmy_pack this))])) [ks (mb_cells (pmy_pack this))..ke (mb_cells (pmy_pack this))]))
         [0..nmb_thispack (pmy_pack this) - 1])"
  using trace_x1_sweep[of K this sz st] by (simp add: x1_events_def)

subsection \<open>The status\<close>

text \<open>
  C9. \<^verbatim>\<open>MHDCalcFlux\<close> returns \<open>complete\<close> for every object, whatever the mesh and the
  selectors are. (The model is a total function: every call returns.)
\<close>

theorem C9_status_complete: "fst (MHDCalcFlux K v this tr) = complete"
  by (rule MHDCalcFlux_complete)


section \<open>Properties of the problem generators\<close>

subsection \<open>The particles\<close>

lemma clamp_fle:
  "fle lo hi \<Longrightarrow> fle lo (fmax (fmin v hi) lo) \<and> fle (fmax (fmin v hi) lo) hi"
  by (cases lo; cases hi; cases v) (auto simp: fle_def fmin_def fmax_def)

lemma part_update_establish:
  assumes "part_update P frand sz g0 g1 nmb nps nspec mm mls p s = Inr t"
    and "1 \<le> nmb" and "1 \<le> nspec"
    and "\<And>m. 0 \<le> m \<Longrightarrow> m \<le> nmb - 1 \<Longrightarrow> block_ok (sz m)"
  shows "particle_ok sz g0 nmb nspec p t"
proof -
  define m where
    "m = min (max (int_of_fp P (fmul P (frand p 0)
                     (fadd P (fp_of_int P (g1 - g0)) (dbl P 1)))) 0) (nmb - 1)"
  have m: "0 \<le> m" "m \<le> nmb - 1"
    using assms(2) by (auto simp: m_def)
  have b: "block_ok (sz m)"
    using assms(4) m by simp
  show ?thesis
    using assms(1,3) m b
    by (auto simp add: part_update_def Let_def particle_ok_def block_ok_def clamp_fle
        m_def[symmetric] split: if_splits)
qed

lemma part_update_frame:
  assumes "part_update P frand sz g0 g1 nmb nps nspec mm mls q s = Inr t" and "q \<noteq> p"
  shows "fst t (i, p) = fst s (i, p)" "snd t (r, p) = snd s (r, p)"
  using assms by (auto simp add: part_update_def Let_def split: if_splits)

lemma part_update_preserve:
  assumes "part_update P frand sz g0 g1 nmb nps nspec mm mls q s = Inr t"
    and "particle_ok sz g0 nmb nspec p s"
    and "1 \<le> nmb" and "1 \<le> nspec"
    and "\<And>m. 0 \<le> m \<Longrightarrow> m \<le> nmb - 1 \<Longrightarrow> block_ok (sz m)"
  shows "particle_ok sz g0 nmb nspec p t"
proof (cases "q = p")
  case True
  then show ?thesis
    using part_update_establish[OF assms(1)[unfolded True] assms(3,4,5)] by simp
next
  case False
  then show ?thesis
    using assms(2) part_update_frame[OF assms(1) False]
    by (simp add: particle_ok_def)
qed

lemma part_update_total:
  "nps \<noteq> 0 \<Longrightarrow> \<exists>t. part_update P frand sz g0 g1 nmb nps nspec mm mls p s = Inr t"
  by (simp add: part_update_def Let_def)

lemma par_for_list_total:
  "(\<And>q s. \<exists>t. body q s = Inr t) \<Longrightarrow> \<exists>t. par_for_list body ps s = Inr t"
proof (induction ps arbitrary: s)
  case Nil
  then show ?case by simp
next
  case (Cons p ps)
  obtain s' where "body p s = Inr s'"
    using Cons.prems by blast
  then show ?case
    using Cons.IH[OF Cons.prems] by simp
qed

lemma par_for_list_preserve:
  "(\<And>q s t. body q s = Inr t \<Longrightarrow> Q s \<Longrightarrow> Q t) \<Longrightarrow> par_for_list body ps s = Inr t \<Longrightarrow> Q s \<Longrightarrow> Q t"
  by (induction ps arbitrary: s) (auto split: sum.splits)

lemma par_for_list_establish:
  assumes "\<And>q s t. body q s = Inr t \<Longrightarrow> Q s \<Longrightarrow> Q t"
    and "\<And>s t. body p s = Inr t \<Longrightarrow> Q t"
  shows "p \<in> set ps \<Longrightarrow> par_for_list body ps s = Inr t \<Longrightarrow> Q t"
proof (induction ps arbitrary: s)
  case Nil
  then show ?case by simp
next
  case (Cons q ps)
  from Cons.prems(2) obtain s' where s': "body q s = Inr s'" "par_for_list body ps s' = Inr t"
    by (auto split: sum.splits)
  show ?case
  proof (cases "q = p")
    case True
    then have "Q s'" using s'(1) assms(2) by simp
    with s'(2) show ?thesis
      by (rule par_for_list_preserve[where body = body and Q = Q, rotated])
         (blast intro: assms(1))
  next
    case False
    then show ?thesis
      using Cons.IH[OF _ s'(2)] Cons.prems(1) by simp
  qed
qed

text \<open>
  C10. On a pack with a particle module, at least one block, well-formed blocks, at
  least one species and a non-zero number of particles per species, the generator
  returns, and in the arrays it returns every particle \<open>p\<close> of \<open>0 .. npart - 1\<close> has its
  parent block in \<open>[gids, gids + nmb - 1]\<close>, its species in \<open>[0, nspecies - 1]\<close> and its
  position within the bounds of its parent block, whatever numbers \<open>frand\<close> are drawn
  and whatever the floating-point arithmetic \<open>P\<close> computes from them.
\<close>

theorem C10_particles_in_bounds:
  assumes "ppart pmbp = Some pp"
    and "nprtcl_perspec_thispack pp \<noteq> 0"
    and "1 \<le> nmb_thispack pmbp"
    and "1 \<le> nspecies pp"
    and "\<forall>m\<in>{0..nmb_thispack pmbp - 1}. block_ok (mbsize pmbp m)"
  shows "\<exists>pi pr.
     UserProblem P frand min_mass mls pmbp =
       Inr (pmbp\<lparr>ppart := Some (pp\<lparr>prtcl_idata := pi, prtcl_rdata := pr\<rparr>)\<rparr>) \<and>
     (\<forall>p\<in>{0..nprtcl_thispack pp - 1}.
        particle_ok (mbsize pmbp) (gids pmbp) (nmb_thispack pmbp) (nspecies pp) p (pi, pr))"
proof -
  let ?body = "part_update P frand (mbsize pmbp) (gids pmbp) (gide pmbp)
      (nmb_thispack pmbp) (nprtcl_perspec_thispack pp) (nspecies pp) min_mass mls"
  let ?Q = "particle_ok (mbsize pmbp) (gids pmbp) (nmb_thispack pmbp) (nspecies pp)"
  have blocks: "block_ok (mbsize pmbp m)" if "0 \<le> m" "m \<le> nmb_thispack pmbp - 1" for m
    using assms(5) that by simp
  obtain t where t: "par_for_list ?body [0..nprtcl_thispack pp - 1]
      (prtcl_idata pp, prtcl_rdata pp) = Inr t"
    using par_for_list_total[of ?body, OF part_update_total[OF assms(2)]] by blast
  have ok: "?Q p t" if "p \<in> {0..nprtcl_thispack pp - 1}" for p
  proof (rule par_for_list_establish[of ?body "?Q p" p, OF _ _ _ t])
    show "?Q p t'" if "?body q s = Inr t'" "?Q p s" for q s t'
      using part_update_preserve[OF that assms(3,4) blocks] by simp
    show "?Q p t'" if "?body p s = Inr t'" for s t'
      using part_update_establish[OF that assms(3,4) blocks] by simp
    show "p \<in> set [0..nprtcl_thispack pp - 1]"
      using that by simp
  qed
  have "UserProblem P frand min_mass mls pmbp =
      Inr (pmbp\<lparr>ppart := Some (pp\<lparr>prtcl_idata := fst t, prtcl_rdata := snd t\<rparr>)\<rparr>)"
    using t assms(1) by (simp add: UserProblem_def par_for1_def)
  then show ?thesis
    using ok by (intro exI[of _ "fst t"] exI[of _ "snd t"]) simp
qed


theorem C10_particles_in_bounds_witness:
  "ppart example_particles = Some example_prtcl \<and>
   nprtcl_perspec_thispack example_prtcl \<noteq> 0 \<and>
   1 \<le> nmb_thispack example_particles \<and>
   1 \<le> nspecies example_prtcl \<and>
   block_ok (mbsize example_particles 0) \<and>
   (\<exists>pi pr.
      UserProblem exact_nan_ops (\<lambda>p n. Some (1 / 2)) (Some 1) (Some 1) example_particles =
        Inr (example_particles\<lparr>ppart :=
               Some (example_prtcl\<lparr>prtcl_idata := pi, prtcl_rdata := pr\<rparr>)\<rparr>) \<and>
      particle_ok (mbsize example_particles) 0 1 1 0 (pi, pr) \<and>
      particle_ok (mbsize example_particles) 0 1 1 1 (pi, pr))"
proof -
  have h1: "ppart example_particles = Some example_prtcl"
    by (simp add: example_particles_def)
  have h2: "nprtcl_perspec_thispack example_prtcl \<noteq> 0" and h4: "1 \<le> nspecies example_prtcl"
    by (simp_all add: example_prtcl_def)
  have h3: "1 \<le> nmb_thispack example_particles"
    by (simp add: example_particles_def)
  have b: "block_ok (mbsize example_particles m)" for m
    by (simp add: example_particles_def block_ok_def fle_def)
  then have h5: "\<forall>m\<in>{0..nmb_thispack example_particles - 1}. block_ok (mbsize example_particles m)"
    by simp
  have v: "gids example_particles = 0" "nmb_thispack example_particles = 1"
    "nspecies example_prtcl = 1" "nprtcl_thispack example_prtcl = 2"
    by (simp_all add: example_particles_def example_prtcl_def)
  obtain pi pr where r:
    "UserProblem exact_nan_ops (\<lambda>p n. Some (1 / 2)) (Some 1) (Some 1) example_particles =
        Inr (example_particles\<lparr>ppart :=
               Some (example_prtcl\<lparr>prtcl_idata := pi, prtcl_rdata := pr\<rparr>)\<rparr>)"
    "\<forall>p\<in>{0..1}. particle_ok (mbsize example_particles) 0 1 1 p (pi, pr)"
    using C10_particles_in_bounds[OF h1 h2 h3 h4 h5, of exact_nan_ops "\<lambda>p n. Some (1 / 2)"
        "Some 1" "Some 1"]
    unfolding v by auto
  from r(2) have "particle_ok (mbsize example_particles) 0 1 1 0 (pi, pr)"
    "particle_ok (mbsize example_particles) 0 1 1 1 (pi, pr)"
    by simp_all
  with r(1) h1 h2 h3 h4 b show ?thesis
    by blast
qed

subsection \<open>The Orszag-Tang vortex\<close>

lemma fold_preserve:
  "(\<And>y s. y \<in> set xs \<Longrightarrow> Q s \<Longrightarrow> Q (f y s)) \<Longrightarrow> Q s \<Longrightarrow> Q (fold f xs s)"
  by (induction xs arbitrary: s) simp_all

lemma fold_establish:
  assumes "\<And>y s. y \<in> set xs \<Longrightarrow> Q s \<Longrightarrow> Q (f y s)" and "\<And>s. Q (f x s)" and "x \<in> set xs"
  shows "Q (fold f xs s)"
  using assms
proof (induction xs arbitrary: s)
  case Nil
  then show ?case by simp
next
  case (Cons y ys)
  show ?case
  proof (cases "y = x")
    case True
    have "Q (fold f ys (f x s))"
      by (rule fold_preserve[where Q = Q]) (simp_all add: Cons.prems)
    then show ?thesis using True by simp
  next
    case False
    then show ?thesis using Cons by simp
  qed
qed

lemma par_for4_preserve:
  assumes "\<And>m k j i s. m \<in> {ml..mu} \<Longrightarrow> k \<in> {kl..ku} \<Longrightarrow> j \<in> {jl..ju} \<Longrightarrow> i \<in> {il..iu} \<Longrightarrow>
      Q s \<Longrightarrow> Q (body m k j i s)"
  shows "Q s \<Longrightarrow> Q (par_for4 ml mu kl ku jl ju il iu body s)"
  unfolding par_for4_def
  by (intro fold_preserve[where Q = Q] assms) simp_all

lemma par_for4_establish:
  assumes pres: "\<And>m k j i s. m \<in> {ml..mu} \<Longrightarrow> k \<in> {kl..ku} \<Longrightarrow> j \<in> {jl..ju} \<Longrightarrow>
      i \<in> {il..iu} \<Longrightarrow> Q s \<Longrightarrow> Q (body m k j i s)"
    and est: "\<And>s. Q (body m k j i s)"
    and m: "m \<in> {ml..mu}" and k: "k \<in> {kl..ku}" and j: "j \<in> {jl..ju}" and i: "i \<in> {il..iu}"
  shows "Q (par_for4 ml mu kl ku jl ju il iu body s)"
proof -
  have pi: "Q (fold (body m' k' j') [il..iu] s)"
    if "m' \<in> {ml..mu}" "k' \<in> {kl..ku}" "j' \<in> {jl..ju}" "Q s" for m' k' j' s
    using that by (intro fold_preserve[where Q = Q] pres) simp_all
  have pj: "Q (fold (\<lambda>j. fold (body m' k' j) [il..iu]) [jl..ju] s)"
    if "m' \<in> {ml..mu}" "k' \<in> {kl..ku}" "Q s" for m' k' s
    using that by (intro fold_preserve[where Q = Q] pi) simp_all
  have pk: "Q (fold (\<lambda>k. fold (\<lambda>j. fold (body m' k j) [il..iu]) [jl..ju]) [kl..ku] s)"
    if "m' \<in> {ml..mu}" "Q s" for m' s
    using that by (intro fold_preserve[where Q = Q] pj) simp_all
  have ei: "Q (fold (body m k j) [il..iu] s)" for s
    by (rule fold_establish[where Q = Q and x = i]) (use pres est m k j i in \<open>simp_all\<close>)
  have ej: "Q (fold (\<lambda>j. fold (body m k j) [il..iu]) [jl..ju] s)" for s
    by (rule fold_establish[where Q = Q and x = j]) (use pi ei m k j in \<open>simp_all\<close>)
  have ek: "Q (fold (\<lambda>k. fold (\<lambda>j. fold (body m k j) [il..iu]) [jl..ju]) [kl..ku] s)" for s
    by (rule fold_establish[where Q = Q and x = k]) (use pj ej m k in \<open>simp_all\<close>)
  show ?thesis
    unfolding par_for4_def
    by (rule fold_establish[where Q = Q and x = m]) (use pk ek m in \<open>simp_all\<close>)
qed

lemma pgen_ot1_u0:
  "u0 (pgen_ot1 P G c sz B0 m k j i mhd) (m', n, k', j', i') =
     (if (m', k', j', i') = (m, k, j, i)
      then (case n of
              IDN \<Rightarrow> ot_d0 P
            | IM1 \<Rightarrow> fmul P (fmul P (ot_d0 P) (ot_v0 P))
                      (fsin P (fmul P (fmul P (dbl P 2) (M_PI P))
                         (CellCenterX G (j - js c) (nx2 c) (x2min (sz m)) (x2max (sz m)))))
            | IM2 \<Rightarrow> fmul P (fmul P (fneg P (ot_d0 P)) (ot_v0 P))
                      (fsin P (fmul P (fmul P (dbl P 2) (M_PI P))
                         (CellCenterX G (i - is' c) (nx1 c) (x1min (sz m)) (x1max (sz m)))))
            | IM3 \<Rightarrow> dbl P 0
            | IEN \<Rightarrow> u0 mhd (m', n, k', j', i'))
      else u0 mhd (m', n, k', j', i'))"
  by (cases n) (simp_all add: pgen_ot1_def Let_def)

lemma pgen_ot1_x1f:
  "x1f (b0 (pgen_ot1 P G c sz B0 m k j i mhd)) x =
     (if i = ie c \<and> x = (m, k, j, i + 1)
      then fdiv P (fsub P
             (A3 P B0 (LeftEdgeX G (i + 1 - is' c) (nx1 c) (x1min (sz m)) (x1max (sz m)))
                      (LeftEdgeX G (j + 1 - js c) (nx2 c) (x2min (sz m)) (x2max (sz m))))
             (A3 P B0 (LeftEdgeX G (i + 1 - is' c) (nx1 c) (x1min (sz m)) (x1max (sz m)))
                      (LeftEdgeX G (j - js c) (nx2 c) (x2min (sz m)) (x2max (sz m)))))
             (dx2 (sz m))
      else if x = (m, k, j, i)
      then fdiv P (fsub P
             (A3 P B0 (LeftEdgeX G (i - is' c) (nx1 c) (x1min (sz m)) (x1max (sz m)))
                      (LeftEdgeX G (j + 1 - js c) (nx2 c) (x2min (sz m)) (x2max (sz m))))
             (A3 P B0 (LeftEdgeX G (i - is' c) (nx1 c) (x1min (sz m)) (x1max (sz m)))
                      (LeftEdgeX G (j - js c) (nx2 c) (x2min (sz m)) (x2max (sz m)))))
             (dx2 (sz m))
      else x1f (b0 mhd) x)"
  by (simp add: pgen_ot1_def Let_def)

lemma pgen_ot1_x2f:
  "x2f (b0 (pgen_ot1 P G c sz B0 m k j i mhd)) x =
     (if j = je c \<and> x = (m, k, j + 1, i)
      then fdiv P (fneg P (fsub P
             (A3 P B0 (LeftEdgeX G (i + 1 - is' c) (nx1 c) (x1min (sz m)) (x1max (sz m)))
                      (LeftEdgeX G (j + 1 - js c) (nx2 c) (x2min (sz m)) (x2max (sz m))))
             (A3 P B0 (LeftEdgeX G (i - is' c) (nx1 c) (x1min (sz m)) (x1max (sz m)))
                      (LeftEdgeX G (j + 1 - js c) (nx2 c) (x2min (sz m)) (x2max (sz m))))))
             (dx1 (sz m))
      else if x = (m, k, j, i)
      then fdiv P (fneg P (fsub P
             (A3 P B0 (LeftEdgeX G (i + 1 - is' c) (nx1 c) (x1min (sz m)) (x1max (sz m)))
                      (LeftEdgeX G (j - js c) (nx2 c) (x2min (sz m)) (x2max (sz m))))
             (A3 P B0 (LeftEdgeX G (i - is' c) (nx1 c) (x1min (sz m)) (x1max (sz m)))
                      (LeftEdgeX G (j - js c) (nx2 c) (x2min (sz m)) (x2max (sz m))))))
             (dx1 (sz m))
      else x2f (b0 mhd) x)"
  by (simp add: pgen_ot1_def Let_def)

lemma pgen_ot1_x3f:
  "x3f (b0 (pgen_ot1 P G c sz B0 m k j i mhd)) x =
     (if (k = ke c \<and> x = (m, k + 1, j, i)) \<or> x = (m, k, j, i) then dbl P 0
      else x3f (b0 mhd) x)"
  by (simp add: pgen_ot1_def Let_def)

lemma pgen_ot2_u0:
  "n \<noteq> IEN \<Longrightarrow>
     u0 (pgen_ot2 P p0 gm1 m k j i mhd) (m', n, k', j', i') = u0 mhd (m', n, k', j', i')"
  by (simp add: pgen_ot2_def Let_def)

lemma pgen_ot2_b0: "b0 (pgen_ot2 P p0 gm1 m k j i mhd) = b0 mhd"
  by (simp add: pgen_ot2_def Let_def)

lemma pgen_ot1_establish:
  "ot_cell P G c sz m k j i (pgen_ot1 P G c sz (ot_B0 P) m k j i mhd)"
  by (simp add: ot_cell_def Let_def pgen_ot1_u0 pgen_ot1_x1f pgen_ot1_x2f pgen_ot1_x3f
      ot_d0_def ot_v0_def ot_B0_def A3_def)

lemma pgen_ot1_edge_frame:
  assumes "(m', k', j', i') \<noteq> (m, k, j, i)" and "i' \<le> ie c" "j' \<le> je c" "k' \<le> ke c"
  shows "i = ie c \<Longrightarrow>
      x1f (b0 (pgen_ot1 P G c sz B0 m' k' j' i' mhd)) (m, k, j, i + 1) =
      x1f (b0 mhd) (m, k, j, i + 1)"
    and "j = je c \<Longrightarrow>
      x2f (b0 (pgen_ot1 P G c sz B0 m' k' j' i' mhd)) (m, k, j + 1, i) =
      x2f (b0 mhd) (m, k, j + 1, i)"
    and "k = ke c \<Longrightarrow>
      x3f (b0 (pgen_ot1 P G c sz B0 m' k' j' i' mhd)) (m, k + 1, j, i) =
      x3f (b0 mhd) (m, k + 1, j, i)"
proof -
  show "x1f (b0 (pgen_ot1 P G c sz B0 m' k' j' i' mhd)) (m, k, j, i + 1) =
      x1f (b0 mhd) (m, k, j, i + 1)" if "i = ie c"
  proof -
    have a: "\<not> (i' = ie c \<and> (m, k, j, i + 1) = (m', k', j', i' + 1))"
      using assms(1) that by auto
    have b: "(m, k, j, i + 1) \<noteq> (m', k', j', i')"
      using assms(2) that by auto
    show ?thesis
      unfolding pgen_ot1_x1f using a b by (simp only: if_False)
  qed
  show "x2f (b0 (pgen_ot1 P G c sz B0 m' k' j' i' mhd)) (m, k, j + 1, i) =
      x2f (b0 mhd) (m, k, j + 1, i)" if "j = je c"
  proof -
    have a: "\<not> (j' = je c \<and> (m, k, j + 1, i) = (m', k', j' + 1, i'))"
      using assms(1) that by auto
    have b: "(m, k, j + 1, i) \<noteq> (m', k', j', i')"
      using assms(3) that by auto
    show ?thesis
      unfolding pgen_ot1_x2f using a b by (simp only: if_False)
  qed
  show "x3f (b0 (pgen_ot1 P G c sz B0 m' k' j' i' mhd)) (m, k + 1, j, i) =
      x3f (b0 mhd) (m, k + 1, j, i)" if "k = ke c"
  proof -
    have a: "\<not> (k' = ke c \<and> (m, k + 1, j, i) = (m', k' + 1, j', i'))"
      using assms(1) that by auto
    have b: "(m, k + 1, j, i) \<noteq> (m', k', j', i')"
      using assms(4) that by auto
    show ?thesis
      unfolding pgen_ot1_x3f using a b by (simp only: if_False simp_thms)
  qed
qed

lemma pgen_ot1_cell_frame:
  assumes "(m', k', j', i') \<noteq> (m, k, j, i)" and "i \<le> ie c" "j \<le> je c" "k \<le> ke c"
  shows "u0 (pgen_ot1 P G c sz B0 m' k' j' i' mhd) (m, n, k, j, i) = u0 mhd (m, n, k, j, i)"
    and "x1f (b0 (pgen_ot1 P G c sz B0 m' k' j' i' mhd)) (m, k, j, i) = x1f (b0 mhd) (m, k, j, i)"
    and "x2f (b0 (pgen_ot1 P G c sz B0 m' k' j' i' mhd)) (m, k, j, i) = x2f (b0 mhd) (m, k, j, i)"
    and "x3f (b0 (pgen_ot1 P G c sz B0 m' k' j' i' mhd)) (m, k, j, i) = x3f (b0 mhd) (m, k, j, i)"
proof -
  have ne: "(m, k, j, i) \<noteq> (m', k', j', i')"
    using assms(1) by auto
  show "u0 (pgen_ot1 P G c sz B0 m' k' j' i' mhd) (m, n, k, j, i) = u0 mhd (m, n, k, j, i)"
    unfolding pgen_ot1_u0 using ne by (simp only: if_False)
  have a: "\<not> (i' = ie c \<and> (m, k, j, i) = (m', k', j', i' + 1))"
    using assms(2) by auto
  show "x1f (b0 (pgen_ot1 P G c sz B0 m' k' j' i' mhd)) (m, k, j, i) = x1f (b0 mhd) (m, k, j, i)"
    unfolding pgen_ot1_x1f using a ne by (simp only: if_False)
  have a: "\<not> (j' = je c \<and> (m, k, j, i) = (m', k', j' + 1, i'))"
    using assms(3) by auto
  show "x2f (b0 (pgen_ot1 P G c sz B0 m' k' j' i' mhd)) (m, k, j, i) = x2f (b0 mhd) (m, k, j, i)"
    unfolding pgen_ot1_x2f using a ne by (simp only: if_False)
  have a: "\<not> (k' = ke c \<and> (m, k, j, i) = (m', k' + 1, j', i'))"
    using assms(4) by auto
  show "x3f (b0 (pgen_ot1 P G c sz B0 m' k' j' i' mhd)) (m, k, j, i) = x3f (b0 mhd) (m, k, j, i)"
    unfolding pgen_ot1_x3f using a ne by (simp only: if_False simp_thms)
qed



lemma imp_eq_trans: "(c \<Longrightarrow> a = b) \<Longrightarrow> (c \<longrightarrow> b = e) \<Longrightarrow> (c \<longrightarrow> a = e)"
  by simp

lemma pgen_ot1_preserve:
  assumes "i \<le> ie c" "j \<le> je c" "k \<le> ke c" "i' \<le> ie c" "j' \<le> je c" "k' \<le> ke c"
    and ok: "ot_cell P G c sz m k j i mhd"
  shows "ot_cell P G c sz m k j i (pgen_ot1 P G c sz (ot_B0 P) m' k' j' i' mhd)"
proof (cases "(m', k', j', i') = (m, k, j, i)")
  case True
  then show ?thesis
    using pgen_ot1_establish[of P G c sz m k j i mhd] by simp
next
  case False
  note f = pgen_ot1_cell_frame[OF False assms(1,2,3)]
  note e = pgen_ot1_edge_frame[OF False assms(4,5,6)]
  from ok show ?thesis
    unfolding ot_cell_def Let_def f
    apply (elim conjE)
    apply (intro conjI)
             apply assumption+
      apply (rule imp_eq_trans[OF e(1)], assumption, assumption)
     apply (rule imp_eq_trans[OF e(2)], assumption, assumption)
    apply (rule imp_eq_trans[OF e(3)], assumption, assumption)
    done
qed

lemma pgen_ot2_preserve:
  "ot_cell P G c sz m k j i mhd \<Longrightarrow>
     ot_cell P G c sz m k j i (pgen_ot2 P p0 gm1 m' k' j' i' mhd)"
  by (simp add: ot_cell_def Let_def pgen_ot2_u0 pgen_ot2_b0)

text \<open>
  C8. On a pack with an \<^verbatim>\<open>MHD\<close> object the generator returns, with \<^verbatim>\<open>B0\<close> set to
  \<open>1/sqrt(4 pi)\<close>, and in the object it returns every active cell \<open>(m, k, j, i)\<close> of
  every block is in the state \<open>ot_cell\<close>: the density is \<open>25/(36 pi)\<close>, the momentum is
  \<open>(d0 v0 sin(2 pi x2), - d0 v0 sin(2 pi x1), 0)\<close> with \<open>v0 = 1\<close> at the cell centre
  \<open>(x1, x2)\<close>, the fields \<^verbatim>\<open>x1f\<close> and \<^verbatim>\<open>x2f\<close> are the differences along the faces of the
  cell, divided by the cell size, of \<open>(B0/(4 pi)) (cos(4 pi x1) - 2 cos(2 pi x2))\<close>, and
  \<^verbatim>\<open>x3f\<close> is zero, on the lower faces and, at the upper edge of the block, on the upper
  face. This holds in every arithmetic \<open>P\<close> and for all cell and face positions \<open>G\<close>.
\<close>

theorem C8_orszag_tang_initial_state:
  assumes "pmhd pmbp = Some mhd"
  shows "\<exists>mhd'.
     OrszagTang P G pmbp =
       Inr (pmbp\<lparr>pmhd := Some mhd'\<rparr>,
            fdiv P (dbl P 1) (fsqrt P (fmul P (dbl P 4) (M_PI P)))) \<and>
     (\<forall>m\<in>{0..nmb_thispack pmbp - 1}.
        \<forall>k\<in>{ks (mb_cells pmbp)..ke (mb_cells pmbp)}.
          \<forall>j\<in>{js (mb_cells pmbp)..je (mb_cells pmbp)}.
            \<forall>i\<in>{is' (mb_cells pmbp)..ie (mb_cells pmbp)}.
              ot_cell P G (mb_cells pmbp) (mbsize pmbp) m k j i mhd')"
proof -
  let ?c = "mb_cells pmbp"
  let ?gm1 = "fsub P (gamma (eos_data mhd)) (dbl P 1)"
  let ?mhd1 = "par_for4 0 (nmb_thispack pmbp - 1) (ks ?c) (ke ?c) (js ?c) (je ?c)
      (is' ?c) (ie ?c) (pgen_ot1 P G ?c (mbsize pmbp) (ot_B0 P)) mhd"
  let ?mhd2 = "par_for4 0 (nmb_thispack pmbp - 1) (ks ?c) (ke ?c) (js ?c) (je ?c)
      (is' ?c) (ie ?c) (pgen_ot2 P (ot_p0 P) ?gm1) ?mhd1"
  have run: "OrszagTang P G pmbp =
      Inr (pmbp\<lparr>pmhd := Some ?mhd2\<rparr>,
           fdiv P (dbl P 1) (fsqrt P (fmul P (dbl P 4) (M_PI P))))"
    using assms by (simp add: OrszagTang_def Let_def) (simp add: ot_B0_def)
  have cell: "ot_cell P G ?c (mbsize pmbp) m k j i ?mhd2"
    if "m \<in> {0..nmb_thispack pmbp - 1}" "k \<in> {ks ?c..ke ?c}" "j \<in> {js ?c..je ?c}"
      "i \<in> {is' ?c..ie ?c}" for m k j i
  proof -
    have "ot_cell P G ?c (mbsize pmbp) m k j i ?mhd1"
    proof (rule par_for4_establish[where Q = "ot_cell P G ?c (mbsize pmbp) m k j i"
          and m = m and k = k and j = j and i = i])
      show "ot_cell P G ?c (mbsize pmbp) m k j i
          (pgen_ot1 P G ?c (mbsize pmbp) (ot_B0 P) m' k' j' i' s)"
        if "k' \<in> {ks ?c..ke ?c}" "j' \<in> {js ?c..je ?c}" "i' \<in> {is' ?c..ie ?c}"
          "ot_cell P G ?c (mbsize pmbp) m k j i s" for m' k' j' i' s
        using that \<open>i \<in> _\<close> \<open>j \<in> _\<close> \<open>k \<in> _\<close> by (intro pgen_ot1_preserve) simp_all
    qed (use that in \<open>simp_all add: pgen_ot1_establish\<close>)
    then show ?thesis
      by (rule par_for4_preserve[where Q = "ot_cell P G ?c (mbsize pmbp) m k j i", rotated])
         (rule pgen_ot2_preserve)
  qed
  show ?thesis
    using run cell by blast
qed

text \<open>
  In exact arithmetic on the block \<open>[-1/2, 1/2]\<^sup>2\<close> of 4 x 2 cells: the cell \<open>(2, 2)\<close> has
  its centre at \<open>(-3/8, -1/4)\<close> and its faces at \<open>x1 = -1/2, -1/4\<close> and \<open>x2 = -1/2, 0\<close>;
  the cell \<open>(3, 5)\<close> is at the upper edge of the block in every direction, with its
  upper faces at \<open>x1 = 1/2\<close> and \<open>x2 = 1/2\<close>.
\<close>

theorem C8_orszag_tang_initial_state_witness:
  "pmhd example_ot = Some example_ot_mhd \<and>
   (\<exists>mhd'.
      OrszagTang exact_ops uniform_grid example_ot =
        Inr (example_ot\<lparr>pmhd := Some mhd'\<rparr>, 1 / sqrt (4 * pi)) \<and>
      u0 mhd' (0, IDN, 0, 2, 2) = 25 / (36 * pi) \<and>
      u0 mhd' (0, IM1, 0, 2, 2) = - (25 / (36 * pi)) \<and>
      u0 mhd' (0, IM2, 0, 2, 2) = 25 / (36 * pi) * (sqrt 2 / 2) \<and>
      u0 mhd' (0, IM3, 0, 2, 2) = 0 \<and>
      x1f (b0 mhd') (0, 0, 2, 2) = - 2 / (pi * sqrt (4 * pi)) \<and>
      x2f (b0 mhd') (0, 0, 2, 2) = 2 / (pi * sqrt (4 * pi)) \<and>
      x3f (b0 mhd') (0, 0, 2, 2) = 0 \<and>
      x3f (b0 mhd') (0, 1, 2, 2) = 0 \<and>
      x1f (b0 mhd') (0, 0, 3, 6) = 2 / (pi * sqrt (4 * pi)) \<and>
      x2f (b0 mhd') (0, 0, 4, 5) = - 2 / (pi * sqrt (4 * pi)))"
proof -
  have h: "pmhd example_ot = Some example_ot_mhd"
    by (simp add: example_ot_def)
  have v: "nmb_thispack example_ot = 1"
    "mb_cells example_ot =
       \<lparr>is' = 2, ie = 5, js = 2, je = 3, ks = 0, ke = 0, nx1 = 4, nx2 = 2, ng = 2\<rparr>"
    by (simp_all add: example_ot_def)
  obtain mhd' where r:
    "OrszagTang exact_ops uniform_grid example_ot =
       Inr (example_ot\<lparr>pmhd := Some mhd'\<rparr>,
            fdiv exact_ops (dbl exact_ops 1)
              (fsqrt exact_ops (fmul exact_ops (dbl exact_ops 4) (M_PI exact_ops))))"
    "\<forall>m\<in>{0..nmb_thispack example_ot - 1}.
        \<forall>k\<in>{ks (mb_cells example_ot)..ke (mb_cells example_ot)}.
          \<forall>j\<in>{js (mb_cells example_ot)..je (mb_cells example_ot)}.
            \<forall>i\<in>{is' (mb_cells example_ot)..ie (mb_cells example_ot)}.
              ot_cell exact_ops uniform_grid (mb_cells example_ot) (mbsize example_ot) m k j i mhd'"
    using C8_orszag_tang_initial_state[OF h, of exact_ops uniform_grid] by blast
  have cell: "ot_cell exact_ops uniform_grid (mb_cells example_ot) (mbsize example_ot) 0 0 2 2 mhd'"
    using r(2) by (simp add: v)
  have "3 * pi / 4 = pi - pi / 4"
    by simp
  then have trig: "sin (3 * pi / 4) = sqrt 2 / 2"
    by (simp only: sin_pi_minus sin_45)
  from cell have c: "u0 mhd' (0, IDN, 0, 2, 2) = 25 / (36 * pi)"
    "u0 mhd' (0, IM1, 0, 2, 2) = - (25 / (36 * pi))"
    "u0 mhd' (0, IM2, 0, 2, 2) = 25 / (36 * pi) * (sqrt 2 / 2)"
    "u0 mhd' (0, IM3, 0, 2, 2) = 0"
    "x1f (b0 mhd') (0, 0, 2, 2) = - 2 / (pi * sqrt (4 * pi))"
    "x2f (b0 mhd') (0, 0, 2, 2) = 2 / (pi * sqrt (4 * pi))"
    "x3f (b0 mhd') (0, 0, 2, 2) = 0"
    "x3f (b0 mhd') (0, 1, 2, 2) = 0"
    by (simp_all add: ot_cell_def Let_def v exact_ops_def uniform_grid_def example_ot_def trig)
  have "ot_cell exact_ops uniform_grid (mb_cells example_ot) (mbsize example_ot) 0 0 3 5 mhd'"
    using r(2) by (simp add: v)
  then have e: "x1f (b0 mhd') (0, 0, 3, 6) = 2 / (pi * sqrt (4 * pi))"
    "x2f (b0 mhd') (0, 0, 4, 5) = - 2 / (pi * sqrt (4 * pi))"
    by (simp_all add: ot_cell_def Let_def v exact_ops_def uniform_grid_def example_ot_def)
  have B: "fdiv exact_ops (dbl exact_ops 1)
      (fsqrt exact_ops (fmul exact_ops (dbl exact_ops 4) (M_PI exact_ops))) = 1 / sqrt (4 * pi)"
    by (simp add: exact_ops_def)
  show ?thesis
    using h r(1) c e unfolding B by blast
qed

end
